theory Spec2Isabelle
  imports Complex_Main "HOL-Library.Word"
begin

section \<open>Data model of \<open>objc_wrapper.c\<close>\<close>

text \<open>
  Pointers, \<open>uintptr_t\<close>, \<open>unsigned long\<close> and \<open>NSUInteger\<close> are 64-bit words (LP64, arm64);
  \<open>NSInteger\<close> is a 64-bit word read as two's complement. \<open>NULL\<close> is the word 0.
\<close>

type_synonym ptr = "64 word"

text \<open>
  A C \<open>double\<close> is modelled by its value: a finite value (every finite double is a real
  number; the two zeros compare equal and are one value here), the two infinities, or NaN.
  The comparisons follow IEEE 754: they agree with the order of the reals on finite values
  and every comparison with NaN is false. The constants the source compares against
  (0, 0.0, 1.0, 16384) are doubles exactly.
\<close>

datatype double = Finite real | PosInf | NegInf | NaN

fun d_lt :: "double \<Rightarrow> double \<Rightarrow> bool" where
  "d_lt NaN b = False"
| "d_lt a NaN = False"
| "d_lt (Finite a) (Finite b) = (a < b)"
| "d_lt (Finite a) PosInf = True"
| "d_lt (Finite a) NegInf = False"
| "d_lt PosInf b = False"
| "d_lt NegInf NegInf = False"
| "d_lt NegInf b = True"

fun d_le :: "double \<Rightarrow> double \<Rightarrow> bool" where
  "d_le NaN b = False"
| "d_le a NaN = False"
| "d_le (Finite a) (Finite b) = (a \<le> b)"
| "d_le (Finite a) PosInf = True"
| "d_le (Finite a) NegInf = False"
| "d_le PosInf PosInf = True"
| "d_le PosInf b = False"
| "d_le NegInf b = True"

definition d_gt :: "double \<Rightarrow> double \<Rightarrow> bool" where
  "d_gt a b = d_lt b a"

record NSRect =
  origin_x :: double
  origin_y :: double
  size_width :: double
  size_height :: double

record NSPoint =
  point_x :: double
  point_y :: double

record NSSize =
  width :: double
  height :: double

text \<open>The callbacks that the file installs with \<open>class_addMethod\<close> (the \<open>IMP\<close> argument).\<close>

datatype impl =
    WindowDidResizeImpl
  | WindowDidBecomeKeyImpl
  | WindowDidResignKeyImpl
  | TahoeTimerTickImpl
  | TahoeViewAcceptsFirstResponderImpl
  | TahoeViewMouseDownImpl
  | TahoeViewMouseUpImpl
  | TahoeViewMouseDraggedImpl
  | TahoeViewMouseMovedImpl
  | TahoeViewKeyDownImpl
  | TahoeViewKeyUpImpl

text \<open>Values printed by a diagnostic (\<open>%p\<close>, \<open>%f\<close>, \<open>%lu\<close>).\<close>

datatype fmt_arg = PtrArg ptr | DoubleArg double | ULongArg "64 word"

text \<open>Arguments and results of one \<open>objc_msgSend\<close> call, as the function-pointer cast types them.\<close>

datatype msg_arg =
    AId ptr
  | ASel ptr
  | ACStr ptr
  | ARect NSRect
  | ASize NSSize
  | ADouble double
  | AULong "64 word"
  | ABool bool

datatype msg_ret =
    RVoid
  | RId ptr
  | RRect NSRect
  | RPoint NSPoint
  | RLong "64 word"
  | RULong "64 word"
  | RUShort "16 word"
  | RCStr ptr

text \<open>
  Everything the file does besides returning a value is an event of the trace, in program
  order. The events of calls into the Objective-C runtime carry the value the runtime
  returned. \<open>Fprintf line args\<close> is \<open>fprintf(stderr, line "\n", args)\<close>: every
  format string of the source ends with a newline, which the event leaves out.
  \<open>Load p\<close> is a read through the pointer \<open>p\<close>.
\<close>

datatype event =
    Fprintf string "fmt_arg list"
  | Fflush
  | Load ptr
  | MsgSend ptr ptr "msg_arg list" msg_ret
  | GetClass string ptr
  | AllocateClassPair ptr string ptr
  | RegisterClassPair ptr
  | AddMethod ptr ptr impl string bool
  | SelRegisterName string ptr
  | GetAssociatedObject ptr string ptr
  | SetAssociatedObject ptr string ptr
  | RouteMouseEvent ptr "32 word" "32 word" double double "32 word"
  | RouteKeyboardEvent ptr "32 word" "32 word" "32 word" "32 word"
  | RouteFocusEvent ptr "32 word"
  | RouteTickCallback ptr
  | RouteWindowDidResize ptr double double

text \<open>
  The Objective-C runtime, the memory behind raw pointers and the routers implemented by
  the application are not part of the file: they are a parameter. \<open>'w\<close> is the state of
  that outside world; each operation reads it and returns the next one.
\<close>

record 'w runtime =
  rt_getClass :: "string \<Rightarrow> 'w \<Rightarrow> ptr \<times> 'w"
  rt_allocateClassPair :: "ptr \<Rightarrow> string \<Rightarrow> 'w \<Rightarrow> ptr \<times> 'w"
  rt_registerClassPair :: "ptr \<Rightarrow> 'w \<Rightarrow> 'w"
  rt_addMethod :: "ptr \<Rightarrow> ptr \<Rightarrow> impl \<Rightarrow> string \<Rightarrow> 'w \<Rightarrow> bool \<times> 'w"
  rt_registerName :: "string \<Rightarrow> 'w \<Rightarrow> ptr \<times> 'w"
  rt_getAssociatedObject :: "ptr \<Rightarrow> string \<Rightarrow> 'w \<Rightarrow> ptr \<times> 'w"
  rt_setAssociatedObject :: "ptr \<Rightarrow> string \<Rightarrow> ptr \<Rightarrow> 'w \<Rightarrow> 'w"
  rt_send_void :: "ptr \<Rightarrow> ptr \<Rightarrow> msg_arg list \<Rightarrow> 'w \<Rightarrow> 'w"
  rt_send_id :: "ptr \<Rightarrow> ptr \<Rightarrow> msg_arg list \<Rightarrow> 'w \<Rightarrow> ptr \<times> 'w"
  rt_send_rect :: "ptr \<Rightarrow> ptr \<Rightarrow> msg_arg list \<Rightarrow> 'w \<Rightarrow> NSRect \<times> 'w"
  rt_send_point :: "ptr \<Rightarrow> ptr \<Rightarrow> msg_arg list \<Rightarrow> 'w \<Rightarrow> NSPoint \<times> 'w"
  rt_send_long :: "ptr \<Rightarrow> ptr \<Rightarrow> msg_arg list \<Rightarrow> 'w \<Rightarrow> 64 word \<times> 'w"
  rt_send_ulong :: "ptr \<Rightarrow> ptr \<Rightarrow> msg_arg list \<Rightarrow> 'w \<Rightarrow> 64 word \<times> 'w"
  rt_send_ushort :: "ptr \<Rightarrow> ptr \<Rightarrow> msg_arg list \<Rightarrow> 'w \<Rightarrow> 16 word \<times> 'w"
  rt_send_cstr :: "ptr \<Rightarrow> ptr \<Rightarrow> msg_arg list \<Rightarrow> 'w \<Rightarrow> ptr \<times> 'w"
  rt_load_ptr :: "ptr \<Rightarrow> 'w \<Rightarrow> ptr"
  rt_load_rect :: "ptr \<Rightarrow> 'w \<Rightarrow> NSRect"
  rt_load_char :: "ptr \<Rightarrow> 'w \<Rightarrow> 8 word"
  rt_route :: "event \<Rightarrow> 'w \<Rightarrow> 'w"

record 'w state =
  world :: 'w
  trace :: "event list"

section \<open>Primitive steps\<close>

definition emit :: "event \<Rightarrow> 'w \<Rightarrow> 'w state \<Rightarrow> 'w state" where
  "emit e w s = \<lparr>world = w, trace = trace s @ [e]\<rparr>"

text \<open>\<open>fprintf(stderr, ...); fflush(stderr);\<close> The source never prints without flushing.\<close>

definition diag :: "string \<Rightarrow> fmt_arg list \<Rightarrow> 'w state \<Rightarrow> 'w state" where
  "diag line args s = s\<lparr>trace := trace s @ [Fprintf line args, Fflush]\<rparr>"

definition msgSend_void :: "'w runtime \<Rightarrow> ptr \<Rightarrow> ptr \<Rightarrow> msg_arg list \<Rightarrow> 'w state \<Rightarrow> 'w state" where
  "msgSend_void rt r sel args s =
     emit (MsgSend r sel args RVoid) (rt_send_void rt r sel args (world s)) s"

definition msgSend_id :: "'w runtime \<Rightarrow> ptr \<Rightarrow> ptr \<Rightarrow> msg_arg list \<Rightarrow> 'w state \<Rightarrow> ptr \<times> 'w state" where
  "msgSend_id rt r sel args s =
     (let (v, w) = rt_send_id rt r sel args (world s)
      in (v, emit (MsgSend r sel args (RId v)) w s))"

definition msgSend_rect :: "'w runtime \<Rightarrow> ptr \<Rightarrow> ptr \<Rightarrow> msg_arg list \<Rightarrow> 'w state \<Rightarrow> NSRect \<times> 'w state" where
  "msgSend_rect rt r sel args s =
     (let (v, w) = rt_send_rect rt r sel args (world s)
      in (v, emit (MsgSend r sel args (RRect v)) w s))"

definition msgSend_point :: "'w runtime \<Rightarrow> ptr \<Rightarrow> ptr \<Rightarrow> msg_arg list \<Rightarrow> 'w state \<Rightarrow> NSPoint \<times> 'w state" where
  "msgSend_point rt r sel args s =
     (let (v, w) = rt_send_point rt r sel args (world s)
      in (v, emit (MsgSend r sel args (RPoint v)) w s))"

definition msgSend_long :: "'w runtime \<Rightarrow> ptr \<Rightarrow> ptr \<Rightarrow> msg_arg list \<Rightarrow> 'w state \<Rightarrow> 64 word \<times> 'w state" where
  "msgSend_long rt r sel args s =
     (let (v, w) = rt_send_long rt r sel args (world s)
      in (v, emit (MsgSend r sel args (RLong v)) w s))"

definition msgSend_ulong :: "'w runtime \<Rightarrow> ptr \<Rightarrow> ptr \<Rightarrow> msg_arg list \<Rightarrow> 'w state \<Rightarrow> 64 word \<times> 'w state" where
  "msgSend_ulong rt r sel args s =
     (let (v, w) = rt_send_ulong rt r sel args (world s)
      in (v, emit (MsgSend r sel args (RULong v)) w s))"

definition msgSend_ushort :: "'w runtime \<Rightarrow> ptr \<Rightarrow> ptr \<Rightarrow> msg_arg list \<Rightarrow> 'w state \<Rightarrow> 16 word \<times> 'w state" where
  "msgSend_ushort rt r sel args s =
     (let (v, w) = rt_send_ushort rt r sel args (world s)
      in (v, emit (MsgSend r sel args (RUShort v)) w s))"

definition msgSend_cstr :: "'w runtime \<Rightarrow> ptr \<Rightarrow> ptr \<Rightarrow> msg_arg list \<Rightarrow> 'w state \<Rightarrow> ptr \<times> 'w state" where
  "msgSend_cstr rt r sel args s =
     (let (v, w) = rt_send_cstr rt r sel args (world s)
      in (v, emit (MsgSend r sel args (RCStr v)) w s))"

definition objc_getClass :: "'w runtime \<Rightarrow> string \<Rightarrow> 'w state \<Rightarrow> ptr \<times> 'w state" where
  "objc_getClass rt name s =
     (let (c, w) = rt_getClass rt name (world s) in (c, emit (GetClass name c) w s))"

definition objc_allocateClassPair :: "'w runtime \<Rightarrow> ptr \<Rightarrow> string \<Rightarrow> 'w state \<Rightarrow> ptr \<times> 'w state" where
  "objc_allocateClassPair rt super name s =
     (let (c, w) = rt_allocateClassPair rt super name (world s)
      in (c, emit (AllocateClassPair super name c) w s))"

definition objc_registerClassPair :: "'w runtime \<Rightarrow> ptr \<Rightarrow> 'w state \<Rightarrow> 'w state" where
  "objc_registerClassPair rt c s =
     emit (RegisterClassPair c) (rt_registerClassPair rt c (world s)) s"

definition class_addMethod :: "'w runtime \<Rightarrow> ptr \<Rightarrow> ptr \<Rightarrow> impl \<Rightarrow> string \<Rightarrow> 'w state \<Rightarrow> bool \<times> 'w state" where
  "class_addMethod rt c sel imp types s =
     (let (ok, w) = rt_addMethod rt c sel imp types (world s)
      in (ok, emit (AddMethod c sel imp types ok) w s))"

definition sel_registerName :: "'w runtime \<Rightarrow> string \<Rightarrow> 'w state \<Rightarrow> ptr \<times> 'w state" where
  "sel_registerName rt name s =
     (let (sel, w) = rt_registerName rt name (world s)
      in (sel, emit (SelRegisterName name sel) w s))"

definition objc_getAssociatedObject :: "'w runtime \<Rightarrow> ptr \<Rightarrow> string \<Rightarrow> 'w state \<Rightarrow> ptr \<times> 'w state" where
  "objc_getAssociatedObject rt obj key s =
     (let (v, w) = rt_getAssociatedObject rt obj key (world s)
      in (v, emit (GetAssociatedObject obj key v) w s))"

definition objc_setAssociatedObject :: "'w runtime \<Rightarrow> ptr \<Rightarrow> string \<Rightarrow> ptr \<Rightarrow> 'w state \<Rightarrow> 'w state" where
  "objc_setAssociatedObject rt obj key v s =
     emit (SetAssociatedObject obj key v) (rt_setAssociatedObject rt obj key v (world s)) s"

definition load_ptr :: "'w runtime \<Rightarrow> ptr \<Rightarrow> 'w state \<Rightarrow> ptr \<times> 'w state" where
  "load_ptr rt p s = (rt_load_ptr rt p (world s), emit (Load p) (world s) s)"

definition load_rect :: "'w runtime \<Rightarrow> ptr \<Rightarrow> 'w state \<Rightarrow> NSRect \<times> 'w state" where
  "load_rect rt p s = (rt_load_rect rt p (world s), emit (Load p) (world s) s)"

definition load_char :: "'w runtime \<Rightarrow> ptr \<Rightarrow> 'w state \<Rightarrow> 8 word \<times> 'w state" where
  "load_char rt p s = (rt_load_char rt p (world s), emit (Load p) (world s) s)"

definition route :: "'w runtime \<Rightarrow> event \<Rightarrow> 'w state \<Rightarrow> 'w state" where
  "route rt e s = emit e (rt_route rt e (world s)) s"

section \<open>The validated invocation gateway\<close>

definition objc_msgSend_wrapper_string ::
  "'w runtime \<Rightarrow> ptr \<Rightarrow> ptr \<Rightarrow> ptr \<Rightarrow> 'w state \<Rightarrow> ptr \<times> 'w state" where
  "objc_msgSend_wrapper_string rt receiver selector utf8_string s =
    (if receiver = 0 then (0, diag ''[objc_wrapper_string] NULL receiver'' [] s)
     else if selector = 0 then (0, diag ''[objc_wrapper_string] NULL selector'' [] s)
     else if utf8_string = 0 then (0, diag ''[objc_wrapper_string] NULL utf8_string'' [] s)
     else if receiver < 0x1000 then
       (0, diag ''[objc_wrapper_string] Invalid receiver address: %p'' [PtrArg receiver] s)
     else if receiver mod 8 \<noteq> 0 then
       (0, diag ''[objc_wrapper_string] Receiver not aligned: %p'' [PtrArg receiver] s)
     else if utf8_string < 0x1000 then
       (0, diag ''[objc_wrapper_string] Invalid string address: %p'' [PtrArg utf8_string] s)
     else msgSend_id rt receiver selector [ACStr utf8_string] s)"

definition objc_msgSend_wrapper :: "'w runtime \<Rightarrow> ptr \<Rightarrow> ptr \<Rightarrow> 'w state \<Rightarrow> ptr \<times> 'w state" where
  "objc_msgSend_wrapper rt receiver selector s =
    (if receiver = 0 then (0, s)
     else if selector = 0 then (0, s)
     else if receiver < 0x1000 then (0, s)
     else if receiver mod 8 \<noteq> 0 then (0, s)
     else
       let (isa_ptr, s) = load_ptr rt receiver s;
           s = diag ''[objc_wrapper] receiver: %p, ISA pointer: %p'' [PtrArg receiver, PtrArg isa_ptr] s
       in if isa_ptr = 0 then (0, s)
          else if isa_ptr < 0x1000 then (0, s)
          else if isa_ptr mod 8 \<noteq> 0 then (0, s)
          else if isa_ptr > 0x7fffffffffff then (0, s)
          else msgSend_id rt receiver selector [] s)"

definition objc_msgSend_wrapper_rect ::
  "'w runtime \<Rightarrow> ptr \<Rightarrow> ptr \<Rightarrow> ptr \<Rightarrow> 'w state \<Rightarrow> ptr \<times> 'w state" where
  "objc_msgSend_wrapper_rect rt receiver selector rect_ptr s =
    (if receiver = 0 then (0, diag ''[objc_wrapper_rect] NULL receiver'' [] s)
     else if selector = 0 then (0, diag ''[objc_wrapper_rect] NULL selector'' [] s)
     else if rect_ptr = 0 then (0, diag ''[objc_wrapper_rect] NULL rect_ptr'' [] s)
     else if receiver < 0x1000 then
       (0, diag ''[objc_wrapper_rect] Invalid receiver address: %p'' [PtrArg receiver] s)
     else if receiver mod 8 \<noteq> 0 then
       (0, diag ''[objc_wrapper_rect] Receiver not aligned: %p'' [PtrArg receiver] s)
     else if rect_ptr < 0x1000 then
       (0, diag ''[objc_wrapper_rect] Invalid rect_ptr address: %p'' [PtrArg rect_ptr] s)
     else if rect_ptr mod 8 \<noteq> 0 then
       (0, diag ''[objc_wrapper_rect] rect_ptr not aligned: %p'' [PtrArg rect_ptr] s)
     else
       let (rect, s) = load_rect rt rect_ptr s
       in if d_lt (size_width rect) (Finite 0) \<or> d_lt (size_height rect) (Finite 0) then
            (0, diag ''[objc_wrapper_rect] Invalid rect dimensions: w=%f, h=%f''
                  [DoubleArg (size_width rect), DoubleArg (size_height rect)] s)
          else if d_gt (size_width rect) (Finite 16384) \<or> d_gt (size_height rect) (Finite 16384) then
            (0, diag ''[objc_wrapper_rect] Rect dimensions too large: w=%f, h=%f''
                  [DoubleArg (size_width rect), DoubleArg (size_height rect)] s)
          else msgSend_id rt receiver selector [ARect rect] s)"

definition objc_msgSend_wrapper_4 ::
  "'w runtime \<Rightarrow> ptr \<Rightarrow> ptr \<Rightarrow> ptr \<Rightarrow> 64 word \<Rightarrow> 64 word \<Rightarrow> bool \<Rightarrow> 'w state \<Rightarrow> ptr \<times> 'w state" where
  "objc_msgSend_wrapper_4 rt receiver selector rect_ptr arg2 arg3 arg4 s =
    (if receiver = 0 then (0, diag ''[objc_wrapper_4] NULL receiver'' [] s)
     else if selector = 0 then (0, diag ''[objc_wrapper_4] NULL selector'' [] s)
     else if rect_ptr = 0 then (0, diag ''[objc_wrapper_4] NULL rect_ptr'' [] s)
     else if receiver < 0x1000 then
       (0, diag ''[objc_wrapper_4] Invalid receiver address: %p'' [PtrArg receiver] s)
     else if receiver mod 8 \<noteq> 0 then
       (0, diag ''[objc_wrapper_4] Receiver not aligned: %p'' [PtrArg receiver] s)
     else if rect_ptr < 0x1000 then
       (0, diag ''[objc_wrapper_4] Invalid rect_ptr address: %p'' [PtrArg rect_ptr] s)
     else if rect_ptr mod 8 \<noteq> 0 then
       (0, diag ''[objc_wrapper_4] rect_ptr not aligned: %p'' [PtrArg rect_ptr] s)
     else if arg2 > 0xFFFFFFFF then
       (0, diag ''[objc_wrapper_4] arg2 (styleMask) too large: %lu'' [ULongArg arg2] s)
     else if arg3 > 0xFFFFFFFF then
       (0, diag ''[objc_wrapper_4] arg3 (backingType) too large: %lu'' [ULongArg arg3] s)
     else
       let (rect, s) = load_rect rt rect_ptr s
       in if d_lt (size_width rect) (Finite 0) \<or> d_lt (size_height rect) (Finite 0) then
            (0, diag ''[objc_wrapper_4] Invalid rect dimensions: w=%f, h=%f''
                  [DoubleArg (size_width rect), DoubleArg (size_height rect)] s)
          else if d_gt (size_width rect) (Finite 16384) \<or> d_gt (size_height rect) (Finite 16384) then
            (0, diag ''[objc_wrapper_4] Rect dimensions too large: w=%f, h=%f''
                  [DoubleArg (size_width rect), DoubleArg (size_height rect)] s)
          else msgSend_id rt receiver selector [ARect rect, AULong arg2, AULong arg3, ABool arg4] s)"

definition objc_msgSend_void_1 :: "'w runtime \<Rightarrow> ptr \<Rightarrow> ptr \<Rightarrow> ptr \<Rightarrow> 'w state \<Rightarrow> 'w state" where
  "objc_msgSend_void_1 rt receiver selector arg1 s =
    (if receiver = 0 then diag ''[objc_msgSend_void_1] NULL receiver'' [] s
     else if selector = 0 then diag ''[objc_msgSend_void_1] NULL selector'' [] s
     else if receiver < 0x1000 \<or> receiver mod 8 \<noteq> 0 then
       diag ''[objc_msgSend_void_1] Invalid receiver: %p'' [PtrArg receiver] s
     else if arg1 \<noteq> 0 \<and> (arg1 < 0x1000 \<or> arg1 mod 8 \<noteq> 0) then
       diag ''[objc_msgSend_void_1] Invalid arg1: %p'' [PtrArg arg1] s
     else msgSend_void rt receiver selector [AId arg1] s)"

definition objc_msgSend_void_0 :: "'w runtime \<Rightarrow> ptr \<Rightarrow> ptr \<Rightarrow> 'w state \<Rightarrow> 'w state" where
  "objc_msgSend_void_0 rt receiver selector s =
    (if receiver = 0 then diag ''[objc_msgSend_void_0] NULL receiver'' [] s
     else if selector = 0 then diag ''[objc_msgSend_void_0] NULL selector'' [] s
     else if receiver < 0x1000 \<or> receiver mod 8 \<noteq> 0 then
       diag ''[objc_msgSend_void_0] Invalid receiver: %p'' [PtrArg receiver] s
     else msgSend_void rt receiver selector [] s)"

definition objc_msgSend_void_1_bool :: "'w runtime \<Rightarrow> ptr \<Rightarrow> ptr \<Rightarrow> bool \<Rightarrow> 'w state \<Rightarrow> 'w state" where
  "objc_msgSend_void_1_bool rt receiver selector arg1 s =
    (if receiver = 0 then diag ''[objc_msgSend_void_1_bool] NULL receiver'' [] s
     else if selector = 0 then diag ''[objc_msgSend_void_1_bool] NULL selector'' [] s
     else if receiver < 0x1000 \<or> receiver mod 8 \<noteq> 0 then
       diag ''[objc_msgSend_void_1_bool] Invalid receiver: %p'' [PtrArg receiver] s
     else msgSend_void rt receiver selector [ABool arg1] s)"

definition objc_msgSend_wrapper_1_uint ::
  "'w runtime \<Rightarrow> ptr \<Rightarrow> ptr \<Rightarrow> 64 word \<Rightarrow> 'w state \<Rightarrow> ptr \<times> 'w state" where
  "objc_msgSend_wrapper_1_uint rt receiver selector index s =
    (if receiver = 0 then (0, diag ''[objc_msgSend_wrapper_1_uint] NULL receiver'' [] s)
     else if selector = 0 then (0, diag ''[objc_msgSend_wrapper_1_uint] NULL selector'' [] s)
     else if receiver < 0x1000 \<or> receiver mod 8 \<noteq> 0 then
       (0, diag ''[objc_msgSend_wrapper_1_uint] Invalid receiver: %p'' [PtrArg receiver] s)
     else msgSend_id rt receiver selector [AULong index] s)"

text \<open>
  \<open>createNSImageFromCGImage\<close>: the \<open>CGImageRef\<close> is passed on as the pointer it is; the
  selector \<open>alloc\<close> is resolved once and used for both classes.
\<close>

definition createNSImageFromCGImage ::
  "'w runtime \<Rightarrow> ptr \<Rightarrow> double \<Rightarrow> double \<Rightarrow> 'w state \<Rightarrow> ptr \<times> 'w state" where
  "createNSImageFromCGImage rt cgImage image_width image_height s =
    (if cgImage = 0 then (0, diag ''[createNSImageFromCGImage] NULL cgImage'' [] s)
     else
     let (NSBitmapImageRepClass, s) = objc_getClass rt ''NSBitmapImageRep'' s
     in if NSBitmapImageRepClass = 0 then
          (0, diag ''[createNSImageFromCGImage] NSBitmapImageRep class not found'' [] s)
     else
     let (allocSel, s) = sel_registerName rt ''alloc'' s
     in if allocSel = 0 then (0, diag ''[createNSImageFromCGImage] alloc selector not found'' [] s)
     else
     let (bitmapRep, s) = msgSend_id rt NSBitmapImageRepClass allocSel [] s
     in if bitmapRep = 0 then
          (0, diag ''[createNSImageFromCGImage] NSBitmapImageRep alloc returned NULL'' [] s)
     else
     let (initWithCGImageSel, s) = sel_registerName rt ''initWithCGImage:'' s
     in if initWithCGImageSel = 0 then
          (0, diag ''[createNSImageFromCGImage] initWithCGImage: selector not found'' [] s)
     else
     let (initializedBitmapRep, s) = msgSend_id rt bitmapRep initWithCGImageSel [AId cgImage] s
     in if initializedBitmapRep = 0 then
          (0, diag ''[createNSImageFromCGImage] NSBitmapImageRep initWithCGImage: returned NULL'' [] s)
     else
     let (NSImageClass, s) = objc_getClass rt ''NSImage'' s
     in if NSImageClass = 0 then (0, diag ''[createNSImageFromCGImage] NSImage class not found'' [] s)
     else
     let (nsImage, s) = msgSend_id rt NSImageClass allocSel [] s
     in if nsImage = 0 then (0, diag ''[createNSImageFromCGImage] NSImage alloc returned NULL'' [] s)
     else
     let size = \<lparr>width = image_width, height = image_height\<rparr>;
         (initWithSizeSel, s) = sel_registerName rt ''initWithSize:'' s
     in if initWithSizeSel = 0 then
          (0, diag ''[createNSImageFromCGImage] initWithSize: selector not found'' [] s)
     else
     let (initializedImage, s) = msgSend_id rt nsImage initWithSizeSel [ASize size] s
     in if initializedImage = 0 then
          (0, diag ''[createNSImageFromCGImage] NSImage initWithSize: returned NULL'' [] s)
     else
     let (addRepresentationSel, s) = sel_registerName rt ''addRepresentation:'' s
     in if addRepresentationSel = 0 then
          (0, diag ''[createNSImageFromCGImage] addRepresentation: selector not found'' [] s)
     else
     let s = msgSend_void rt initializedImage addRepresentationSel [AId initializedBitmapRep] s
     in (initializedImage,
         diag ''[createNSImageFromCGImage] Created NSImage at: %p'' [PtrArg initializedImage] s))"

definition empty_rect :: NSRect where
  "empty_rect = \<lparr>origin_x = Finite 0, origin_y = Finite 0, size_width = Finite 0, size_height = Finite 0\<rparr>"

definition objc_msgSend_returns_NSRect ::
  "'w runtime \<Rightarrow> ptr \<Rightarrow> ptr \<Rightarrow> 'w state \<Rightarrow> NSRect \<times> 'w state" where
  "objc_msgSend_returns_NSRect rt receiver selector s =
    (if receiver = 0 then (empty_rect, diag ''[objc_msgSend_returns_NSRect] NULL receiver'' [] s)
     else if selector = 0 then (empty_rect, diag ''[objc_msgSend_returns_NSRect] NULL selector'' [] s)
     else msgSend_rect rt receiver selector [] s)"

section \<open>Callbacks installed on the synthesized classes\<close>

text \<open>
  \<open>objc_getAssociatedObject(self, "windowPtr")\<close>: the key is modelled by the text of the
  string literal. \<open>(uintptr_t)window_ptr_obj\<close> keeps the value.
\<close>

definition windowDidResizeImpl :: "'w runtime \<Rightarrow> ptr \<Rightarrow> ptr \<Rightarrow> ptr \<Rightarrow> 'w state \<Rightarrow> 'w state" where
  "windowDidResizeImpl rt self cmd notification s =
    (if self = 0 \<or> notification = 0 then diag ''[windowDidResizeImpl] NULL self or notification'' [] s
     else
       let (window_ptr_obj, s) = objc_getAssociatedObject rt self ''windowPtr'' s
       in if window_ptr_obj = 0 then
            diag ''[windowDidResizeImpl] window_ptr not found in associated objects'' [] s
          else
            let window_ptr = window_ptr_obj
            in if window_ptr = 0 then diag ''[windowDidResizeImpl] window_ptr is 0'' [] s
               else
                 let (objectSel, s) = sel_registerName rt ''object'' s
                 in if objectSel = 0 then diag ''[windowDidResizeImpl] object selector not found'' [] s
                    else
                      let (ns_window, s) = msgSend_id rt notification objectSel [] s
                      in if ns_window = 0 then
                           diag ''[windowDidResizeImpl] NSWindow from notification is NULL'' [] s
                         else
                           let (frameSel, s) = sel_registerName rt ''frame'' s
                           in if frameSel = 0 then
                                diag ''[windowDidResizeImpl] frame selector not found'' [] s
                              else
                                let (frame, s) = msgSend_rect rt ns_window frameSel [] s;
                                    (contentViewSel, s) = sel_registerName rt ''contentView'' s
                                in if contentViewSel = 0 then
                                     diag ''[windowDidResizeImpl] contentView selector not found'' [] s
                                   else
                                     let (content_view, s) = msgSend_id rt ns_window contentViewSel [] s
                                     in if content_view = 0 then
                                          diag ''[windowDidResizeImpl] contentView is NULL'' [] s
                                        else
                                          let (content_frame, s) = msgSend_rect rt content_view frameSel [] s
                                          in route rt (RouteWindowDidResize window_ptr
                                                (size_width content_frame) (size_height content_frame)) s)"

definition windowDidBecomeKeyImpl :: "'w runtime \<Rightarrow> ptr \<Rightarrow> ptr \<Rightarrow> ptr \<Rightarrow> 'w state \<Rightarrow> 'w state" where
  "windowDidBecomeKeyImpl rt self cmd notification s =
    (if self = 0 then diag ''[windowDidBecomeKeyImpl] NULL self'' [] s
     else
       let (window_ptr_obj, s) = objc_getAssociatedObject rt self ''windowPtr'' s
       in if window_ptr_obj = 0 then diag ''[windowDidBecomeKeyImpl] window_ptr not found'' [] s
          else
            let window_ptr = window_ptr_obj
            in if window_ptr = 0 then diag ''[windowDidBecomeKeyImpl] window_ptr is 0'' [] s
               else route rt (RouteFocusEvent window_ptr 0) s)"

definition windowDidResignKeyImpl :: "'w runtime \<Rightarrow> ptr \<Rightarrow> ptr \<Rightarrow> ptr \<Rightarrow> 'w state \<Rightarrow> 'w state" where
  "windowDidResignKeyImpl rt self cmd notification s =
    (if self = 0 then diag ''[windowDidResignKeyImpl] NULL self'' [] s
     else
       let (window_ptr_obj, s) = objc_getAssociatedObject rt self ''windowPtr'' s
       in if window_ptr_obj = 0 then diag ''[windowDidResignKeyImpl] window_ptr not found'' [] s
          else
            let window_ptr = window_ptr_obj
            in if window_ptr = 0 then diag ''[windowDidResignKeyImpl] window_ptr is 0'' [] s
               else route rt (RouteFocusEvent window_ptr 1) s)"

definition tahoeTimerTickImpl :: "'w runtime \<Rightarrow> ptr \<Rightarrow> ptr \<Rightarrow> ptr \<Rightarrow> 'w state \<Rightarrow> 'w state" where
  "tahoeTimerTickImpl rt self cmd timer s =
    (if self = 0 \<or> timer = 0 then diag ''[tahoeTimerTickImpl] NULL self or timer'' [] s
     else
       let (userInfoSel, s) = sel_registerName rt ''userInfo'' s
       in if userInfoSel = 0 then diag ''[tahoeTimerTickImpl] userInfo selector not found'' [] s
          else
            let (userInfo, s) = msgSend_id rt timer userInfoSel [] s
            in if userInfo = 0 then diag ''[tahoeTimerTickImpl] Timer userInfo is NULL'' [] s
               else
                 let (unsignedLongLongValueSel, s) = sel_registerName rt ''unsignedLongLongValue'' s
                 in if unsignedLongLongValueSel = 0 then
                      diag ''[tahoeTimerTickImpl] unsignedLongLongValue selector not found'' [] s
                    else
                      let (window_ptr, s) = msgSend_ulong rt userInfo unsignedLongLongValueSel [] s
                      in if window_ptr = 0 then diag ''[tahoeTimerTickImpl] window_ptr is 0'' [] s
                         else route rt (RouteTickCallback window_ptr) s)"

text \<open>
  \<open>button_num\<close> is an \<open>NSInteger\<close>: the comparisons are signed (\<open><s\<close>), the cast to
  \<open>uint32_t\<close> keeps the low 32 bits. The cast of \<open>modifiers\<close> does the same.
\<close>

definition tahoeViewMouseDownImpl :: "'w runtime \<Rightarrow> ptr \<Rightarrow> ptr \<Rightarrow> ptr \<Rightarrow> 'w state \<Rightarrow> 'w state" where
  "tahoeViewMouseDownImpl rt self cmd event s =
    (if self = 0 \<or> event = 0 then diag ''[tahoeViewMouseDownImpl] NULL self or event'' [] s
     else
       let (window_ptr_obj, s) = objc_getAssociatedObject rt self ''windowPtr'' s
       in if window_ptr_obj = 0 then diag ''[tahoeViewMouseDownImpl] window_ptr not found'' [] s
          else
            let window_ptr = window_ptr_obj
            in if window_ptr = 0 then diag ''[tahoeViewMouseDownImpl] window_ptr is 0'' [] s
               else
                 let (locationSel, s) = sel_registerName rt ''locationInWindow'' s
                 in if locationSel = 0 then
                      diag ''[tahoeViewMouseDownImpl] locationInWindow selector not found'' [] s
                    else
                      let (location, s) = msgSend_point rt event locationSel [] s;
                          (buttonNumberSel, s) = sel_registerName rt ''buttonNumber'' s
                      in if buttonNumberSel = 0 then
                           diag ''[tahoeViewMouseDownImpl] buttonNumber selector not found'' [] s
                         else
                           let (button_num, s) = msgSend_long rt event buttonNumberSel [] s;
                               button = (if button_num <s 0 \<or> 2 <s button_num then 3
                                         else (ucast button_num :: 32 word));
                               (modifierFlagsSel, s) = sel_registerName rt ''modifierFlags'' s
                           in if modifierFlagsSel = 0 then
                                diag ''[tahoeViewMouseDownImpl] modifierFlags selector not found'' [] s
                              else
                                let (modifiers, s) = msgSend_ulong rt event modifierFlagsSel [] s
                                in route rt (RouteMouseEvent window_ptr 0 button
                                      (point_x location) (point_y location) (ucast modifiers)) s)"

definition tahoeViewMouseUpImpl :: "'w runtime \<Rightarrow> ptr \<Rightarrow> ptr \<Rightarrow> ptr \<Rightarrow> 'w state \<Rightarrow> 'w state" where
  "tahoeViewMouseUpImpl rt self cmd event s =
    (if self = 0 \<or> event = 0 then diag ''[tahoeViewMouseUpImpl] NULL self or event'' [] s
     else
       let (window_ptr_obj, s) = objc_getAssociatedObject rt self ''windowPtr'' s
       in if window_ptr_obj = 0 then diag ''[tahoeViewMouseUpImpl] window_ptr not found'' [] s
          else
            let window_ptr = window_ptr_obj
            in if window_ptr = 0 then diag ''[tahoeViewMouseUpImpl] window_ptr is 0'' [] s
               else
                 let (locationSel, s) = sel_registerName rt ''locationInWindow'' s
                 in if locationSel = 0 then
                      diag ''[tahoeViewMouseUpImpl] locationInWindow selector not found'' [] s
                    else
                      let (location, s) = msgSend_point rt event locationSel [] s;
                          (buttonNumberSel, s) = sel_registerName rt ''buttonNumber'' s
                      in if buttonNumberSel = 0 then
                           diag ''[tahoeViewMouseUpImpl] buttonNumber selector not found'' [] s
                         else
                           let (button_num, s) = msgSend_long rt event buttonNumberSel [] s;
                               button = (if button_num <s 0 \<or> 2 <s button_num then 3
                                         else (ucast button_num :: 32 word));
                               (modifierFlagsSel, s) = sel_registerName rt ''modifierFlags'' s
                           in if modifierFlagsSel = 0 then
                                diag ''[tahoeViewMouseUpImpl] modifierFlags selector not found'' [] s
                              else
                                let (modifiers, s) = msgSend_ulong rt event modifierFlagsSel [] s
                                in route rt (RouteMouseEvent window_ptr 1 button
                                      (point_x location) (point_y location) (ucast modifiers)) s)"

definition tahoeViewMouseDraggedImpl :: "'w runtime \<Rightarrow> ptr \<Rightarrow> ptr \<Rightarrow> ptr \<Rightarrow> 'w state \<Rightarrow> 'w state" where
  "tahoeViewMouseDraggedImpl rt self cmd event s =
    (if self = 0 \<or> event = 0 then diag ''[tahoeViewMouseDraggedImpl] NULL self or event'' [] s
     else
       let (window_ptr_obj, s) = objc_getAssociatedObject rt self ''windowPtr'' s
       in if window_ptr_obj = 0 then diag ''[tahoeViewMouseDraggedImpl] window_ptr not found'' [] s
          else
            let window_ptr = window_ptr_obj
            in if window_ptr = 0 then diag ''[tahoeViewMouseDraggedImpl] window_ptr is 0'' [] s
               else
                 let (locationSel, s) = sel_registerName rt ''locationInWindow'' s
                 in if locationSel = 0 then
                      diag ''[tahoeViewMouseDraggedImpl] locationInWindow selector not found'' [] s
                    else
                      let (location, s) = msgSend_point rt event locationSel [] s;
                          (buttonNumberSel, s) = sel_registerName rt ''buttonNumber'' s
                      in if buttonNumberSel = 0 then
                           diag ''[tahoeViewMouseDraggedImpl] buttonNumber selector not found'' [] s
                         else
                           let (button_num, s) = msgSend_long rt event buttonNumberSel [] s;
                               button = (if button_num <s 0 \<or> 2 <s button_num then 3
                                         else (ucast button_num :: 32 word));
                               (modifierFlagsSel, s) = sel_registerName rt ''modifierFlags'' s
                           in if modifierFlagsSel = 0 then
                                diag ''[tahoeViewMouseDraggedImpl] modifierFlags selector not found'' [] s
                              else
                                let (modifiers, s) = msgSend_ulong rt event modifierFlagsSel [] s
                                in route rt (RouteMouseEvent window_ptr 3 button
                                      (point_x location) (point_y location) (ucast modifiers)) s)"

definition tahoeViewMouseMovedImpl :: "'w runtime \<Rightarrow> ptr \<Rightarrow> ptr \<Rightarrow> ptr \<Rightarrow> 'w state \<Rightarrow> 'w state" where
  "tahoeViewMouseMovedImpl rt self cmd event s =
    (if self = 0 \<or> event = 0 then diag ''[tahoeViewMouseMovedImpl] NULL self or event'' [] s
     else
       let (window_ptr_obj, s) = objc_getAssociatedObject rt self ''windowPtr'' s
       in if window_ptr_obj = 0 then diag ''[tahoeViewMouseMovedImpl] window_ptr not found'' [] s
          else
            let window_ptr = window_ptr_obj
            in if window_ptr = 0 then diag ''[tahoeViewMouseMovedImpl] window_ptr is 0'' [] s
               else
                 let (locationSel, s) = sel_registerName rt ''locationInWindow'' s
                 in if locationSel = 0 then
                      diag ''[tahoeViewMouseMovedImpl] locationInWindow selector not found'' [] s
                    else
                      let (location, s) = msgSend_point rt event locationSel [] s;
                          (modifierFlagsSel, s) = sel_registerName rt ''modifierFlags'' s
                      in if modifierFlagsSel = 0 then
                           diag ''[tahoeViewMouseMovedImpl] modifierFlags selector not found'' [] s
                         else
                           let (modifiers, s) = msgSend_ulong rt event modifierFlagsSel [] s
                           in route rt (RouteMouseEvent window_ptr 2 0
                                 (point_x location) (point_y location) (ucast modifiers)) s)"

text \<open>
  The first byte of the event's characters, read once the string pointer is known to be
  non-null (\<open>utf8 != NULL && utf8[0] != '\0'\<close>). \<open>char\<close> is signed on the target, so the
  cast to \<open>uint32_t\<close> extends the sign (\<open>scast\<close>). The block is the same in both key
  callbacks and prints nothing.
\<close>

definition first_character :: "'w runtime \<Rightarrow> ptr \<Rightarrow> 'w state \<Rightarrow> 32 word \<times> 'w state" where
  "first_character rt characters_str s =
    (if characters_str \<noteq> 0 then
       let (utf8StringSel, s) = sel_registerName rt ''UTF8String'' s
       in if utf8StringSel \<noteq> 0 then
            let (utf8, s) = msgSend_cstr rt characters_str utf8StringSel [] s
            in if utf8 \<noteq> 0 then
                 let (c, s) = load_char rt utf8 s
                 in if c \<noteq> 0 then (scast c, s) else (0, s)
               else (0, s)
          else (0, s)
     else (0, s))"

definition tahoeViewKeyDownImpl :: "'w runtime \<Rightarrow> ptr \<Rightarrow> ptr \<Rightarrow> ptr \<Rightarrow> 'w state \<Rightarrow> 'w state" where
  "tahoeViewKeyDownImpl rt self cmd event s =
    (if self = 0 \<or> event = 0 then diag ''[tahoeViewKeyDownImpl] NULL self or event'' [] s
     else
       let (window_ptr_obj, s) = objc_getAssociatedObject rt self ''windowPtr'' s
       in if window_ptr_obj = 0 then diag ''[tahoeViewKeyDownImpl] window_ptr not found'' [] s
          else
            let window_ptr = window_ptr_obj
            in if window_ptr = 0 then diag ''[tahoeViewKeyDownImpl] window_ptr is 0'' [] s
               else
                 let (keyCodeSel, s) = sel_registerName rt ''keyCode'' s
                 in if keyCodeSel = 0 then diag ''[tahoeViewKeyDownImpl] keyCode selector not found'' [] s
                    else
                      let (key_code, s) = msgSend_ushort rt event keyCodeSel [] s;
                          (charactersSel, s) = sel_registerName rt ''characters'' s
                      in if charactersSel = 0 then
                           diag ''[tahoeViewKeyDownImpl] characters selector not found'' [] s
                         else
                           let (characters_str, s) = msgSend_id rt event charactersSel [] s;
                               (character, s) = first_character rt characters_str s;
                               (modifierFlagsSel, s) = sel_registerName rt ''modifierFlags'' s
                           in if modifierFlagsSel = 0 then
                                diag ''[tahoeViewKeyDownImpl] modifierFlags selector not found'' [] s
                              else
                                let (modifiers, s) = msgSend_ulong rt event modifierFlagsSel [] s
                                in route rt (RouteKeyboardEvent window_ptr 0 (ucast key_code)
                                      character (ucast modifiers)) s)"

definition tahoeViewKeyUpImpl :: "'w runtime \<Rightarrow> ptr \<Rightarrow> ptr \<Rightarrow> ptr \<Rightarrow> 'w state \<Rightarrow> 'w state" where
  "tahoeViewKeyUpImpl rt self cmd event s =
    (if self = 0 \<or> event = 0 then diag ''[tahoeViewKeyUpImpl] NULL self or event'' [] s
     else
       let (window_ptr_obj, s) = objc_getAssociatedObject rt self ''windowPtr'' s
       in if window_ptr_obj = 0 then diag ''[tahoeViewKeyUpImpl] window_ptr not found'' [] s
          else
            let window_ptr = window_ptr_obj
            in if window_ptr = 0 then diag ''[tahoeViewKeyUpImpl] window_ptr is 0'' [] s
               else
                 let (keyCodeSel, s) = sel_registerName rt ''keyCode'' s
                 in if keyCodeSel = 0 then diag ''[tahoeViewKeyUpImpl] keyCode selector not found'' [] s
                    else
                      let (key_code, s) = msgSend_ushort rt event keyCodeSel [] s;
                          (charactersSel, s) = sel_registerName rt ''characters'' s
                      in if charactersSel = 0 then
                           diag ''[tahoeViewKeyUpImpl] characters selector not found'' [] s
                         else
                           let (characters_str, s) = msgSend_id rt event charactersSel [] s;
                               (character, s) = first_character rt characters_str s;
                               (modifierFlagsSel, s) = sel_registerName rt ''modifierFlags'' s
                           in if modifierFlagsSel = 0 then
                                diag ''[tahoeViewKeyUpImpl] modifierFlags selector not found'' [] s
                              else
                                let (modifiers, s) = msgSend_ulong rt event modifierFlagsSel [] s
                                in route rt (RouteKeyboardEvent window_ptr 1 (ucast key_code)
                                      character (ucast modifiers)) s)"

definition tahoeViewAcceptsFirstResponderImpl ::
  "'w runtime \<Rightarrow> ptr \<Rightarrow> ptr \<Rightarrow> 'w state \<Rightarrow> bool \<times> 'w state" where
  "tahoeViewAcceptsFirstResponderImpl rt self cmd s =
    (if self = 0 then (False, diag ''[tahoeViewAcceptsFirstResponderImpl] NULL self'' [] s)
     else (True, s))"

section \<open>Dynamic type synthesis\<close>

text \<open>
  Each constructor looks its class up and builds it when the lookup returns \<open>NULL\<close>. The
  body of that \<open>if (cls == NULL) { ... }\<close> block is a definition of its own, named
  \<open>..._newClass\<close>: it returns \<open>None\<close> where the block leaves the constructor with
  \<open>return NULL\<close>, and the new class otherwise.
\<close>

definition createWindowDelegate_newClass :: "'w runtime \<Rightarrow> 'w state \<Rightarrow> ptr option \<times> 'w state" where
  "createWindowDelegate_newClass rt s =
    (let (NSObjectClass, s) = objc_getClass rt ''NSObject'' s
     in if NSObjectClass = 0 then (None, diag ''[createWindowDelegate] NSObject class not found'' [] s)
     else
     let (delegateClass, s) = objc_allocateClassPair rt NSObjectClass ''TahoeWindowDelegate'' s
     in if delegateClass = 0 then
          (None, diag ''[createWindowDelegate] Failed to allocate delegate class'' [] s)
     else
     let (resizeSel, s) = sel_registerName rt ''windowDidResize:'' s
     in if resizeSel = 0 then
          (None, diag ''[createWindowDelegate] Failed to register windowDidResize: selector'' [] s)
     else
     let (methodAdded, s) = class_addMethod rt delegateClass resizeSel WindowDidResizeImpl ''v@:@'' s
     in if \<not> methodAdded then
          (None, diag ''[createWindowDelegate] Failed to add windowDidResize: method'' [] s)
     else
     let (becomeKeySel, s) = sel_registerName rt ''windowDidBecomeKey:'' s
     in if becomeKeySel = 0 then
          (None, diag ''[createWindowDelegate] Failed to register windowDidBecomeKey: selector'' [] s)
     else
     let (becomeKeyAdded, s) = class_addMethod rt delegateClass becomeKeySel WindowDidBecomeKeyImpl ''v@:@'' s
     in if \<not> becomeKeyAdded then
          (None, diag ''[createWindowDelegate] Failed to add windowDidBecomeKey: method'' [] s)
     else
     let (resignKeySel, s) = sel_registerName rt ''windowDidResignKey:'' s
     in if resignKeySel = 0 then
          (None, diag ''[createWindowDelegate] Failed to register windowDidResignKey: selector'' [] s)
     else
     let (resignKeyAdded, s) = class_addMethod rt delegateClass resignKeySel WindowDidResignKeyImpl ''v@:@'' s
     in if \<not> resignKeyAdded then
          (None, diag ''[createWindowDelegate] Failed to add windowDidResignKey: method'' [] s)
     else
     let s = objc_registerClassPair rt delegateClass s
     in (Some delegateClass, diag ''[createWindowDelegate] Created TahoeWindowDelegate class'' [] s))"

text \<open>The rest of \<open>createWindowDelegate\<close>, from \<open>sel_registerName("alloc")\<close> on.\<close>

definition createWindowDelegate_instance :: "'w runtime \<Rightarrow> ptr \<Rightarrow> ptr \<Rightarrow> 'w state \<Rightarrow> ptr \<times> 'w state" where
  "createWindowDelegate_instance rt window_ptr delegateClass s =
    (let (allocSel, s) = sel_registerName rt ''alloc'' s
     in if allocSel = 0 then (0, diag ''[createWindowDelegate] alloc selector not found'' [] s)
     else
     let (delegate, s) = msgSend_id rt delegateClass allocSel [] s
     in if delegate = 0 then (0, diag ''[createWindowDelegate] Failed to allocate delegate'' [] s)
     else
     let (initSel, s) = sel_registerName rt ''init'' s
     in if initSel = 0 then (0, diag ''[createWindowDelegate] init selector not found'' [] s)
     else
     let (initializedDelegate, s) = msgSend_id rt delegate initSel [] s
     in if initializedDelegate = 0 then
          (0, diag ''[createWindowDelegate] Failed to initialize delegate'' [] s)
     else
     let s = objc_setAssociatedObject rt initializedDelegate ''windowPtr'' window_ptr s
     in (initializedDelegate,
         diag ''[createWindowDelegate] Created window delegate instance at: %p''
           [PtrArg initializedDelegate] s))"

definition createWindowDelegate :: "'w runtime \<Rightarrow> ptr \<Rightarrow> 'w state \<Rightarrow> ptr \<times> 'w state" where
  "createWindowDelegate rt window_ptr s =
    (if window_ptr = 0 then (0, diag ''[createWindowDelegate] NULL window_ptr'' [] s)
     else
       let (delegateClass, s) = objc_getClass rt ''TahoeWindowDelegate'' s
       in if delegateClass = 0 then
            (case createWindowDelegate_newClass rt s of
               (None, s) \<Rightarrow> (0, s)
             | (Some delegateClass, s) \<Rightarrow> createWindowDelegate_instance rt window_ptr delegateClass s)
          else createWindowDelegate_instance rt window_ptr delegateClass s)"

definition createAnimationTimer_newClass :: "'w runtime \<Rightarrow> 'w state \<Rightarrow> ptr option \<times> 'w state" where
  "createAnimationTimer_newClass rt s =
    (let (NSObjectClass, s) = objc_getClass rt ''NSObject'' s
     in if NSObjectClass = 0 then (None, diag ''[createAnimationTimer] NSObject class not found'' [] s)
     else
     let (timerTargetClass, s) = objc_allocateClassPair rt NSObjectClass ''TahoeTimerTarget'' s
     in if timerTargetClass = 0 then
          (None, diag ''[createAnimationTimer] Failed to allocate timer target class'' [] s)
     else
     let s = objc_registerClassPair rt timerTargetClass s
     in (Some timerTargetClass, diag ''[createAnimationTimer] Created TahoeTimerTarget class'' [] s))"

text \<open>
  The rest of \<open>createAnimationTimer\<close>, from \<open>sel_registerName("alloc")\<close> on. The method
  \<open>tahoeTimerTick:\<close> is added here, on every call, and both outcomes of
  \<open>class_addMethod\<close> print a line and go on.
\<close>

definition createAnimationTimer_instance ::
  "'w runtime \<Rightarrow> ptr \<Rightarrow> double \<Rightarrow> ptr \<Rightarrow> 'w state \<Rightarrow> ptr \<times> 'w state" where
  "createAnimationTimer_instance rt window_ptr interval timerTargetClass s =
    (let (allocSel, s) = sel_registerName rt ''alloc'' s
     in if allocSel = 0 then (0, diag ''[createAnimationTimer] alloc selector not found'' [] s)
     else
     let (timerTarget, s) = msgSend_id rt timerTargetClass allocSel [] s
     in if timerTarget = 0 then (0, diag ''[createAnimationTimer] Failed to allocate timer target'' [] s)
     else
     let (initSel, s) = sel_registerName rt ''init'' s
     in if initSel = 0 then (0, diag ''[createAnimationTimer] init selector not found'' [] s)
     else
     let (initializedTarget, s) = msgSend_id rt timerTarget initSel [] s
     in if initializedTarget = 0 then
          (0, diag ''[createAnimationTimer] Failed to initialize timer target'' [] s)
     else
     let s = objc_setAssociatedObject rt initializedTarget ''windowPtr'' window_ptr s;
         (NSNumberClass, s) = objc_getClass rt ''NSNumber'' s
     in if NSNumberClass = 0 then (0, diag ''[createAnimationTimer] NSNumber class not found'' [] s)
     else
     let (numberWithUnsignedLongLongSel, s) = sel_registerName rt ''numberWithUnsignedLongLong:'' s
     in if numberWithUnsignedLongLongSel = 0 then
          (0, diag ''[createAnimationTimer] numberWithUnsignedLongLong: selector not found'' [] s)
     else
     let (userInfo, s) = msgSend_id rt NSNumberClass numberWithUnsignedLongLongSel [AULong window_ptr] s
     in if userInfo = 0 then
          (0, diag ''[createAnimationTimer] Failed to create NSNumber for userInfo'' [] s)
     else
     let (tickSel, s) = sel_registerName rt ''tahoeTimerTick:'' s
     in if tickSel = 0 then (0, diag ''[createAnimationTimer] Failed to register tick selector'' [] s)
     else
     let (methodAdded, s) = class_addMethod rt timerTargetClass tickSel TahoeTimerTickImpl ''v@:@'' s;
         s = (if \<not> methodAdded then
                diag ''[createAnimationTimer] Method tahoeTimerTick: already exists or failed to add (continuing)'' [] s
              else
                diag ''[createAnimationTimer] Added tahoeTimerTick: method to TahoeTimerTarget class'' [] s);
         (scheduledTimerSel, s) =
            sel_registerName rt ''scheduledTimerWithTimeInterval:target:selector:userInfo:repeats:'' s
     in if scheduledTimerSel = 0 then
          (0, diag ''[createAnimationTimer] scheduledTimerWithTimeInterval:target:selector:userInfo:repeats: selector not found'' [] s)
     else
     let (NSTimerClass, s) = objc_getClass rt ''NSTimer'' s
     in if NSTimerClass = 0 then (0, diag ''[createAnimationTimer] NSTimer class not found'' [] s)
     else
     let (timer, s) = msgSend_id rt NSTimerClass scheduledTimerSel
                        [ADouble interval, AId initializedTarget, ASel tickSel, AId userInfo, ABool True] s
     in if timer = 0 then (0, diag ''[createAnimationTimer] Failed to create NSTimer'' [] s)
     else (timer, diag ''[createAnimationTimer] Created NSTimer successfully at: %p'' [PtrArg timer] s))"

definition createAnimationTimer :: "'w runtime \<Rightarrow> ptr \<Rightarrow> double \<Rightarrow> 'w state \<Rightarrow> ptr \<times> 'w state" where
  "createAnimationTimer rt window_ptr interval s =
    (if window_ptr = 0 then (0, diag ''[createAnimationTimer] NULL window_ptr'' [] s)
     else if d_le interval (Finite 0) \<or> d_gt interval (Finite 1) then
       (0, diag ''[createAnimationTimer] Invalid interval: %f (expected 0 < interval <= 1.0)''
             [DoubleArg interval] s)
     else
       let (timerTargetClass, s) = objc_getClass rt ''TahoeTimerTarget'' s
       in if timerTargetClass = 0 then
            (case createAnimationTimer_newClass rt s of
               (None, s) \<Rightarrow> (0, s)
             | (Some timerTargetClass, s) \<Rightarrow>
                 createAnimationTimer_instance rt window_ptr interval timerTargetClass s)
          else createAnimationTimer_instance rt window_ptr interval timerTargetClass s)"

definition createTahoeView_newClass :: "'w runtime \<Rightarrow> 'w state \<Rightarrow> ptr option \<times> 'w state" where
  "createTahoeView_newClass rt s =
    (let (NSViewClass, s) = objc_getClass rt ''NSView'' s
     in if NSViewClass = 0 then (None, diag ''[createTahoeView] NSView class not found'' [] s)
     else
     let (viewClass, s) = objc_allocateClassPair rt NSViewClass ''TahoeView'' s
     in if viewClass = 0 then (None, diag ''[createTahoeView] Failed to allocate view class'' [] s)
     else
     let (acceptsSel, s) = sel_registerName rt ''acceptsFirstResponder'' s
     in if acceptsSel = 0 then
          (None, diag ''[createTahoeView] Failed to register acceptsFirstResponder selector'' [] s)
     else
     let (acceptsAdded, s) = class_addMethod rt viewClass acceptsSel TahoeViewAcceptsFirstResponderImpl ''c@:'' s
     in if \<not> acceptsAdded then
          (None, diag ''[createTahoeView] Failed to add acceptsFirstResponder method'' [] s)
     else
     let (mouseDownSel, s) = sel_registerName rt ''mouseDown:'' s
     in if mouseDownSel = 0 then
          (None, diag ''[createTahoeView] Failed to register mouseDown: selector'' [] s)
     else
     let (mouseDownAdded, s) = class_addMethod rt viewClass mouseDownSel TahoeViewMouseDownImpl ''v@:@'' s
     in if \<not> mouseDownAdded then (None, diag ''[createTahoeView] Failed to add mouseDown: method'' [] s)
     else
     let (mouseUpSel, s) = sel_registerName rt ''mouseUp:'' s
     in if mouseUpSel = 0 then
          (None, diag ''[createTahoeView] Failed to register mouseUp: selector'' [] s)
     else
     let (mouseUpAdded, s) = class_addMethod rt viewClass mouseUpSel TahoeViewMouseUpImpl ''v@:@'' s
     in if \<not> mouseUpAdded then (None, diag ''[createTahoeView] Failed to add mouseUp: method'' [] s)
     else
     let (mouseDraggedSel, s) = sel_registerName rt ''mouseDragged:'' s
     in if mouseDraggedSel = 0 then
          (None, diag ''[createTahoeView] Failed to register mouseDragged: selector'' [] s)
     else
     let (mouseDraggedAdded, s) = class_addMethod rt viewClass mouseDraggedSel TahoeViewMouseDraggedImpl ''v@:@'' s
     in if \<not> mouseDraggedAdded then
          (None, diag ''[createTahoeView] Failed to add mouseDragged: method'' [] s)
     else
     let (mouseMovedSel, s) = sel_registerName rt ''mouseMoved:'' s
     in if mouseMovedSel = 0 then
          (None, diag ''[createTahoeView] Failed to register mouseMoved: selector'' [] s)
     else
     let (mouseMovedAdded, s) = class_addMethod rt viewClass mouseMovedSel TahoeViewMouseMovedImpl ''v@:@'' s
     in if \<not> mouseMovedAdded then
          (None, diag ''[createTahoeView] Failed to add mouseMoved: method'' [] s)
     else
     let (keyDownSel, s) = sel_registerName rt ''keyDown:'' s
     in if keyDownSel = 0 then
          (None, diag ''[createTahoeView] Failed to register keyDown: selector'' [] s)
     else
     let (keyDownAdded, s) = class_addMethod rt viewClass keyDownSel TahoeViewKeyDownImpl ''v@:@'' s
     in if \<not> keyDownAdded then (None, diag ''[createTahoeView] Failed to add keyDown: method'' [] s)
     else
     let (keyUpSel, s) = sel_registerName rt ''keyUp:'' s
     in if keyUpSel = 0 then
          (None, diag ''[createTahoeView] Failed to register keyUp: selector'' [] s)
     else
     let (keyUpAdded, s) = class_addMethod rt viewClass keyUpSel TahoeViewKeyUpImpl ''v@:@'' s
     in if \<not> keyUpAdded then (None, diag ''[createTahoeView] Failed to add keyUp: method'' [] s)
     else
     let s = objc_registerClassPair rt viewClass s
     in (Some viewClass, diag ''[createTahoeView] Created TahoeView class'' [] s))"

text \<open>The rest of \<open>createTahoeView\<close>, from \<open>sel_registerName("alloc")\<close> on.\<close>

definition createTahoeView_instance :: "'w runtime \<Rightarrow> ptr \<Rightarrow> ptr \<Rightarrow> 'w state \<Rightarrow> ptr \<times> 'w state" where
  "createTahoeView_instance rt window_ptr viewClass s =
    (let (allocSel, s) = sel_registerName rt ''alloc'' s
     in if allocSel = 0 then (0, diag ''[createTahoeView] alloc selector not found'' [] s)
     else
     let (view, s) = msgSend_id rt viewClass allocSel [] s
     in if view = 0 then (0, diag ''[createTahoeView] Failed to allocate view'' [] s)
     else
     let (initSel, s) = sel_registerName rt ''init'' s
     in if initSel = 0 then (0, diag ''[createTahoeView] init selector not found'' [] s)
     else
     let (initializedView, s) = msgSend_id rt view initSel [] s
     in if initializedView = 0 then (0, diag ''[createTahoeView] Failed to initialize view'' [] s)
     else
     let s = objc_setAssociatedObject rt initializedView ''windowPtr'' window_ptr s
     in (initializedView,
         diag ''[createTahoeView] Created TahoeView instance at: %p'' [PtrArg initializedView] s))"

definition createTahoeView :: "'w runtime \<Rightarrow> ptr \<Rightarrow> 'w state \<Rightarrow> ptr \<times> 'w state" where
  "createTahoeView rt window_ptr s =
    (if window_ptr = 0 then (0, diag ''[createTahoeView] NULL window_ptr'' [] s)
     else
       let (viewClass, s) = objc_getClass rt ''TahoeView'' s
       in if viewClass = 0 then
            (case createTahoeView_newClass rt s of
               (None, s) \<Rightarrow> (0, s)
             | (Some viewClass, s) \<Rightarrow> createTahoeView_instance rt window_ptr viewClass s)
          else createTahoeView_instance rt window_ptr viewClass s)"


section \<open>Observations on traces\<close>

text \<open>The events a call added to the trace.\<close>

definition new_events :: "'w state \<Rightarrow> 'w state \<Rightarrow> event list" where
  "new_events s s' = drop (length (trace s)) (trace s')"

fun is_MsgSend :: "event \<Rightarrow> bool" where
  "is_MsgSend (MsgSend r sel args v) = True"
| "is_MsgSend e = False"

fun is_Load :: "event \<Rightarrow> bool" where
  "is_Load (Load p) = True"
| "is_Load e = False"

fun is_Fprintf :: "event \<Rightarrow> bool" where
  "is_Fprintf (Fprintf line args) = True"
| "is_Fprintf e = False"



fun is_AllocateClassPair :: "event \<Rightarrow> bool" where
  "is_AllocateClassPair (AllocateClassPair super name c) = True"
| "is_AllocateClassPair e = False"

fun is_RegisterClassPair :: "event \<Rightarrow> bool" where
  "is_RegisterClassPair (RegisterClassPair c) = True"
| "is_RegisterClassPair e = False"

fun is_AddMethod :: "event \<Rightarrow> bool" where
  "is_AddMethod (AddMethod c sel imp types ok) = True"
| "is_AddMethod e = False"

text \<open>A selector that did not resolve; a method installation that reported failure.\<close>

fun is_failed_selector :: "event \<Rightarrow> bool" where
  "is_failed_selector (SelRegisterName name sel) = (sel = 0)"
| "is_failed_selector e = False"

fun is_failed_addMethod :: "event \<Rightarrow> bool" where
  "is_failed_addMethod (AddMethod c sel imp types ok) = (\<not> ok)"
| "is_failed_addMethod e = False"

text \<open>A runtime call that returned \<open>NULL\<close> where the constructors check for it.\<close>

fun is_null_result :: "event \<Rightarrow> bool" where
  "is_null_result (GetClass name c) = (c = 0)"
| "is_null_result (AllocateClassPair super name c) = (c = 0)"
| "is_null_result (SelRegisterName name sel) = (sel = 0)"
| "is_null_result (MsgSend r sel args v) = (v = RId 0)"
| "is_null_result e = False"



text \<open>No class was allocated or registered; and, stronger, no method was added either.\<close>

definition no_class_step :: "event list \<Rightarrow> bool" where
  "no_class_step es = (\<not> list_ex is_AllocateClassPair es \<and> \<not> list_ex is_RegisterClassPair es)"

definition no_synthesis_step :: "event list \<Rightarrow> bool" where
  "no_synthesis_step es =
     (\<not> list_ex is_AllocateClassPair es \<and> \<not> list_ex is_RegisterClassPair es
      \<and> \<not> list_ex is_AddMethod es)"

text \<open>The line begins with the tag of the function that printed it.\<close>

definition tagged :: "string \<Rightarrow> string \<Rightarrow> bool" where
  "tagged tag line = (take (length tag) line = tag)"

fun is_diag_line :: "string \<Rightarrow> event \<Rightarrow> bool" where
  "is_diag_line tag (Fprintf line args) = tagged tag line"
| "is_diag_line tag e = False"

text \<open>The last thing the call did was to print a line with this tag and flush it.\<close>

definition ends_with_diag :: "string \<Rightarrow> event list \<Rightarrow> bool" where
  "ends_with_diag tag es =
     (2 \<le> length es \<and> last es = Fflush \<and> is_diag_line tag (last (butlast es)))"

text \<open>Every failed \<open>class_addMethod\<close> is followed at once by a printed line and its flush.\<close>

fun failed_adds_reported :: "event list \<Rightarrow> bool" where
  "failed_adds_reported [] = True"
| "failed_adds_reported (AddMethod c sel imp types ok # es) =
     ((ok \<or> (case es of e1 # e2 # es' \<Rightarrow> is_Fprintf e1 \<and> e2 = Fflush | _ \<Rightarrow> False))
      \<and> failed_adds_reported es)"
| "failed_adds_reported (e # es) = failed_adds_reported es"

text \<open>
  A call that was turned away: the outside world is as before, and the call neither sent
  a message nor read through a pointer.
\<close>

definition untouched :: "'w state \<Rightarrow> 'w state \<Rightarrow> bool" where
  "untouched s s' =
     (world s' = world s \<and> \<not> list_ex is_MsgSend (new_events s s')
      \<and> \<not> list_ex is_Load (new_events s s'))"


section \<open>The specification's predicates\<close>

text \<open>
  The handles the specification wants turned away (its section 4.1): null, below the
  floor 0x1000, or not divisible by 8. The source has no function for this test; every
  shim writes its own checks.
\<close>

definition invalid_handle :: "ptr \<Rightarrow> bool" where
  "invalid_handle p = (p = 0 \<or> p < 0x1000 \<or> p mod 8 \<noteq> 0)"

text \<open>
  The specification's button rule: an ordinal in {0, 1, 2} is routed as it is, any other
  ordinal as 3.
\<close>

definition normalized_button :: "64 word \<Rightarrow> 32 word \<Rightarrow> bool" where
  "normalized_button button_num button =
     (if sint button_num \<in> {0, 1, 2} then uint button = sint button_num else button = 3)"

text \<open>The specification's interval range: the half-open interval (0, 1.0].\<close>

definition interval_in_range :: "double \<Rightarrow> bool" where
  "interval_in_range interval = (d_lt (Finite 0) interval \<and> d_le interval (Finite 1))"

section \<open>Postconditions on the added events\<close>

text \<open>
  \<open>ens out P s x\<close>: the computation \<open>x\<close>, started in \<open>s\<close>, only added events to the
  trace, and its result and the added events satisfy \<open>P\<close>. \<open>out\<close> reads result and final
  state off \<open>x\<close>: the identity for a function that returns a value, \<open>Pair ()\<close> for a
  \<open>void\<close> function.
\<close>

definition ens ::
  "('x \<Rightarrow> 'a \<times> 'w state) \<Rightarrow> ('a \<Rightarrow> event list \<Rightarrow> bool) \<Rightarrow> 'w state \<Rightarrow> 'x \<Rightarrow> bool" where
  "ens out P s x = (\<exists>es. trace (snd (out x)) = trace s @ es \<and> P (fst (out x)) es)"

section \<open>The runtime's class registry\<close>

text \<open>
  The constructors look a class up by name and create it when the lookup fails. What they
  rely on is the registry of the Objective-C runtime, which is not part of the source. It
  is stated here as a property of the runtime alone, so that statements about two calls
  in a row can assume it without assuming anything about the constructors.

  \<open>resolves\<close>: the lookup by \<open>name\<close> gives the class \<open>c\<close>.
\<close>

definition resolves :: "'w runtime \<Rightarrow> string \<Rightarrow> ptr \<Rightarrow> 'w \<Rightarrow> bool" where
  "resolves rt name c w = (c \<noteq> 0 \<and> fst (rt_getClass rt name w) = c)"

text \<open>\<open>pending\<close>: registering \<open>c\<close> now would make \<open>name\<close> resolve to it.\<close>

definition pending :: "'w runtime \<Rightarrow> string \<Rightarrow> ptr \<Rightarrow> 'w \<Rightarrow> bool" where
  "pending rt name c w = resolves rt name c (rt_registerClassPair rt c w)"

text \<open>
  \<open>preserves\<close>: the runtime calls the constructors make besides allocation and
  registration (class lookup, selector resolution, method installation, a message that
  returns an object, association) keep the property \<open>I\<close> of the runtime state.
\<close>

definition preserves :: "'w runtime \<Rightarrow> ('w \<Rightarrow> bool) \<Rightarrow> bool" where
  "preserves rt I =
     (\<forall>w. I w \<longrightarrow>
        (\<forall>n. I (snd (rt_getClass rt n w)))
      \<and> (\<forall>n. I (snd (rt_registerName rt n w)))
      \<and> (\<forall>c sel imp types. I (snd (rt_addMethod rt c sel imp types w)))
      \<and> (\<forall>r sel args. I (snd (rt_send_id rt r sel args w)))
      \<and> (\<forall>ob key v. I (rt_setAssociatedObject rt ob key v w)))"

text \<open>
  The contract for one name: a class allocated under the name is pending, and the other
  calls neither disturb a pending class nor a registered one.
\<close>

definition registry_contract :: "'w runtime \<Rightarrow> string \<Rightarrow> bool" where
  "registry_contract rt name =
     ((\<forall>super w. fst (rt_allocateClassPair rt super name w) \<noteq> 0 \<longrightarrow>
          pending rt name (fst (rt_allocateClassPair rt super name w))
            (snd (rt_allocateClassPair rt super name w)))
      \<and> (\<forall>c. preserves rt (pending rt name c))
      \<and> (\<forall>c. preserves rt (resolves rt name c)))"

text \<open>
  \<open>ensw I out Q s x\<close>: when \<open>I\<close> holds of the runtime state in which \<open>x\<close> starts, its
  result and the runtime state it leaves satisfy \<open>Q\<close>.
\<close>

definition ensw ::
  "('w \<Rightarrow> bool) \<Rightarrow> ('x \<Rightarrow> 'a \<times> 'w state) \<Rightarrow> ('a \<Rightarrow> 'w \<Rightarrow> bool) \<Rightarrow> 'w state \<Rightarrow> 'x \<Rightarrow> bool" where
  "ensw I out Q s x = (I (world s) \<longrightarrow> Q (fst (out x)) (world (snd (out x))))"

section \<open>A reference runtime for closed examples\<close>

text \<open>
  The general statements below hold for every runtime. To run the functions on concrete
  inputs, here is one runtime, written after the documented behaviour of the Objective-C
  runtime: \<open>objc_getClass\<close> finds the registered classes, \<open>objc_allocateClassPair\<close>
  refuses a name in use, \<open>objc_registerClassPair\<close> publishes an allocated class,
  \<open>class_addMethod\<close> refuses a selector the class already implements,
  \<open>sel_registerName\<close> interns names, associated objects are a table keyed by object
  and key, and every message that returns an object returns a fresh one. What the
  remaining messages and the raw memory answer is held in fields of the world.
\<close>

record objc_world =
  w_classes :: "(string \<times> ptr) list"
  w_pending :: "(ptr \<times> string) list"
  w_methods :: "(ptr \<times> ptr) list"
  w_selectors :: "(string \<times> ptr) list"
  w_assoc :: "((ptr \<times> string) \<times> ptr) list"
  w_next :: ptr
  w_frames :: "(ptr \<times> NSRect) list"
  w_location :: NSPoint
  w_button :: "64 word"
  w_ulong :: "64 word"
  w_keycode :: "16 word"
  w_cstr :: ptr
  w_char :: "8 word"
  w_isa :: ptr
  w_rect_mem :: NSRect

definition reference_runtime :: "objc_world runtime" where
  "reference_runtime =
    \<lparr>rt_getClass = (\<lambda>name w. (case map_of (w_classes w) name of Some c \<Rightarrow> c | None \<Rightarrow> 0, w)),
     rt_allocateClassPair = (\<lambda>super name w.
        if super = 0 \<or> map_of (w_classes w) name \<noteq> None then (0, w)
        else (w_next w, w\<lparr>w_pending := (w_next w, name) # w_pending w, w_next := w_next w + 0x10\<rparr>)),
     rt_registerClassPair = (\<lambda>c w.
        case map_of (w_pending w) c of
          Some name \<Rightarrow> w\<lparr>w_classes := (name, c) # w_classes w\<rparr>
        | None \<Rightarrow> w),
     rt_addMethod = (\<lambda>c sel imp types w.
        if (c, sel) \<in> set (w_methods w) then (False, w)
        else (True, w\<lparr>w_methods := (c, sel) # w_methods w\<rparr>)),
     rt_registerName = (\<lambda>name w.
        case map_of (w_selectors w) name of
          Some sel \<Rightarrow> (sel, w)
        | None \<Rightarrow> (w_next w, w\<lparr>w_selectors := (name, w_next w) # w_selectors w,
                                 w_next := w_next w + 0x10\<rparr>)),
     rt_getAssociatedObject = (\<lambda>obj key w.
        (case map_of (w_assoc w) (obj, key) of Some v \<Rightarrow> v | None \<Rightarrow> 0, w)),
     rt_setAssociatedObject = (\<lambda>obj key v w. w\<lparr>w_assoc := ((obj, key), v) # w_assoc w\<rparr>),
     rt_send_void = (\<lambda>r sel args w. w),
     rt_send_id = (\<lambda>r sel args w. (w_next w, w\<lparr>w_next := w_next w + 0x10\<rparr>)),
     rt_send_rect = (\<lambda>r sel args w.
        (case map_of (w_frames w) r of Some f \<Rightarrow> f | None \<Rightarrow> empty_rect, w)),
     rt_send_point = (\<lambda>r sel args w. (w_location w, w)),
     rt_send_long = (\<lambda>r sel args w. (w_button w, w)),
     rt_send_ulong = (\<lambda>r sel args w. (w_ulong w, w)),
     rt_send_ushort = (\<lambda>r sel args w. (w_keycode w, w)),
     rt_send_cstr = (\<lambda>r sel args w. (w_cstr w, w)),
     rt_load_ptr = (\<lambda>p w. w_isa w),
     rt_load_rect = (\<lambda>p w. w_rect_mem w),
     rt_load_char = (\<lambda>p w. w_char w),
     rt_route = (\<lambda>e w. w)\<rparr>"

definition initial_world :: objc_world where
  "initial_world =
    \<lparr>w_classes = [(''NSObject'', 0x10000), (''NSView'', 0x10010), (''NSNumber'', 0x10020),
                  (''NSTimer'', 0x10030)],
     w_pending = [], w_methods = [], w_selectors = [], w_assoc = [],
     w_next = 0x100000,
     w_frames = [],
     w_location = \<lparr>point_x = Finite 0, point_y = Finite 0\<rparr>,
     w_button = 0, w_ulong = 0, w_keycode = 0, w_cstr = 0, w_char = 0,
     w_isa = 0x10000,
     w_rect_mem = empty_rect\<rparr>"

definition start :: "objc_world \<Rightarrow> objc_world state" where
  "start w = \<lparr>world = w, trace = []\<rparr>"

text \<open>
  A world with a view or delegate at \<open>0x2000\<close> that carries the token 42, a window
  (the first object a message returns) whose frame is 800 by 628, its content view (the
  third address handed out after it) whose frame is 800 by 600, and a pointer event at
  (10, 20) with button ordinal 5.
\<close>

definition event_world :: objc_world where
  "event_world = initial_world
     \<lparr>w_assoc := [((0x2000, ''windowPtr''), 42)],
      w_frames := [(0x100010, \<lparr>origin_x = Finite 100, origin_y = Finite 100,
                                size_width = Finite 800, size_height = Finite 628\<rparr>),
                   (0x100040, \<lparr>origin_x = Finite 0, origin_y = Finite 0,
                                size_width = Finite 800, size_height = Finite 600\<rparr>)],
      w_location := \<lparr>point_x = Finite 10, point_y = Finite 20\<rparr>,
      w_button := 5,
      w_ulong := 0x100\<rparr>"

text \<open>A runtime that fails: no selector resolves.\<close>

definition no_selectors_runtime :: "objc_world runtime" where
  "no_selectors_runtime = reference_runtime\<lparr>rt_registerName := \<lambda>name w. (0, w)\<rparr>"

section \<open>Basic facts\<close>

lemmas prim_defs =
  emit_def diag_def msgSend_void_def msgSend_id_def msgSend_rect_def msgSend_point_def
  msgSend_long_def msgSend_ulong_def msgSend_ushort_def msgSend_cstr_def
  objc_getClass_def objc_allocateClassPair_def objc_registerClassPair_def
  class_addMethod_def sel_registerName_def objc_getAssociatedObject_def
  objc_setAssociatedObject_def load_ptr_def load_rect_def load_char_def route_def

lemmas gateway_defs =
  objc_msgSend_wrapper_def objc_msgSend_wrapper_string_def objc_msgSend_wrapper_rect_def
  objc_msgSend_wrapper_4_def objc_msgSend_void_1_def objc_msgSend_void_0_def
  objc_msgSend_void_1_bool_def objc_msgSend_wrapper_1_uint_def objc_msgSend_returns_NSRect_def

lemmas ctor_defs =
  createWindowDelegate_def createWindowDelegate_newClass_def createWindowDelegate_instance_def
  createAnimationTimer_def createAnimationTimer_newClass_def createAnimationTimer_instance_def
  createTahoeView_def createTahoeView_newClass_def createTahoeView_instance_def

lemmas callback_defs =
  windowDidResizeImpl_def windowDidBecomeKeyImpl_def windowDidResignKeyImpl_def
  tahoeTimerTickImpl_def tahoeViewMouseDownImpl_def tahoeViewMouseUpImpl_def
  tahoeViewMouseDraggedImpl_def tahoeViewMouseMovedImpl_def tahoeViewKeyDownImpl_def
  tahoeViewKeyUpImpl_def tahoeViewAcceptsFirstResponderImpl_def first_character_def

lemmas eval_defs =
  prim_defs reference_runtime_def initial_world_def start_def Let_def d_gt_def

lemma new_events_append [simp]: "trace s' = trace s @ es \<Longrightarrow> new_events s s' = es"
  by (simp add: new_events_def)

lemma new_events_same [simp]: "new_events s s = []"
  by (simp add: new_events_def)

lemma new_events_diag [simp]: "new_events s (diag line args s) = [Fprintf line args, Fflush]"
  by (simp add: diag_def)

lemma world_diag [simp]: "world (diag line args s) = world s"
  by (simp add: diag_def)

lemma untouched_same [simp]: "untouched s s"
  by (simp add: untouched_def)

lemma untouched_diag [simp]: "untouched s (diag line args s)"
  by (simp add: untouched_def)

lemma untouched_msgs [simp]:
  "\<not> untouched s (snd (msgSend_id rt r sel args s))"
  "\<not> untouched s (msgSend_void rt r sel args s)"
  "\<not> untouched s (snd (msgSend_rect rt r sel args s))"
  by (simp_all add: untouched_def prim_defs split_def Let_def)

lemma ends_with_diag_Cons: "ends_with_diag tag es \<Longrightarrow> ends_with_diag tag (e # es)"
  by (cases es) (auto simp add: ends_with_diag_def)

lemma ends_with_diag_append: "ends_with_diag tag es \<Longrightarrow> ends_with_diag tag (pre @ es)"
  by (induction pre) (auto intro: ends_with_diag_Cons)

lemma ends_with_diag_two [simp]:
  "ends_with_diag tag [Fprintf line args, Fflush] = tagged tag line"
  by (simp add: ends_with_diag_def)

lemma ends_with_diag_step [simp]:
  "ends_with_diag tag (e # e1 # e2 # es) = ends_with_diag tag (e1 # e2 # es)"
  by (simp add: ends_with_diag_def)

lemma ends_with_diag_append_step [simp]:
  "ends_with_diag tag (pre @ e1 # e2 # es) = ends_with_diag tag (e1 # e2 # es)"
  by (simp add: ends_with_diag_def butlast_append)

lemma failed_adds_reported_append:
  "\<not> list_ex is_AddMethod pre \<Longrightarrow> failed_adds_reported (pre @ es) = failed_adds_reported es"
  by (induction pre rule: failed_adds_reported.induct) simp_all

lemma failed_adds_reported_none: "\<not> list_ex is_AddMethod pre \<Longrightarrow> failed_adds_reported pre"
  using failed_adds_reported_append [of pre "[]"] by simp

section \<open>Rules for postconditions\<close>

text \<open>
  One rule for every primitive step, for the conditional and for every way a function
  ends. Applied from the top of a function body they walk through it once; every result
  of a runtime call becomes a variable, and what is left to prove is the postcondition
  for the events of each path.
\<close>

lemma ens_value: "ens (\<lambda>x. x) P s x \<Longrightarrow> P (fst x) (new_events s (snd x))"
  by (auto simp add: ens_def)

lemma ens_void: "ens (Pair ()) (\<lambda>u. P) s x \<Longrightarrow> P (new_events s x)"
  by (auto simp add: ens_def)

lemma ens_bind:
  assumes tr: "trace (snd fs) = trace s @ ev (fst fs)"
      and k: "\<And>x s'. ens out (\<lambda>r es. P r (ev x @ es)) s' (k x s')"
  shows "ens out P s (Let fs (case_prod k))"
proof -
  from k [of "fst fs" "snd fs"] obtain es
    where "trace (snd (out (k (fst fs) (snd fs)))) = trace (snd fs) @ es"
      and "P (fst (out (k (fst fs) (snd fs)))) (ev (fst fs) @ es)"
    by (auto simp add: ens_def)
  then show ?thesis
    by (auto simp add: ens_def split_def Let_def tr)
qed

lemma ens_let:
  assumes tr: "trace s1 = trace s @ ev"
      and k: "\<And>s'. ens out (\<lambda>r es. P r (ev @ es)) s' (k s')"
  shows "ens out P s (Let s1 k)"
proof -
  from k [of s1] obtain es
    where "trace (snd (out (k s1))) = trace s1 @ es" and "P (fst (out (k s1))) (ev @ es)"
    by (auto simp add: ens_def)
  then show ?thesis
    by (auto simp add: ens_def Let_def tr)
qed

lemma ens_getClass:
  "(\<And>x s'. ens out (\<lambda>r es. P r (GetClass n x # es)) s' (k x s')) \<Longrightarrow>
   ens out P s (Let (objc_getClass rt n s) (case_prod k))"
  by (rule ens_bind [where ev = "\<lambda>x. [GetClass n x]"]) (simp_all add: prim_defs split_def Let_def)

lemma ens_allocateClassPair:
  "(\<And>x s'. ens out (\<lambda>r es. P r (AllocateClassPair c n x # es)) s' (k x s')) \<Longrightarrow>
   ens out P s (Let (objc_allocateClassPair rt c n s) (case_prod k))"
  by (rule ens_bind [where ev = "\<lambda>x. [AllocateClassPair c n x]"]) (simp_all add: prim_defs split_def Let_def)

lemma ens_registerName:
  "(\<And>x s'. ens out (\<lambda>r es. P r (SelRegisterName n x # es)) s' (k x s')) \<Longrightarrow>
   ens out P s (Let (sel_registerName rt n s) (case_prod k))"
  by (rule ens_bind [where ev = "\<lambda>x. [SelRegisterName n x]"]) (simp_all add: prim_defs split_def Let_def)

lemma ens_addMethod:
  "(\<And>x s'. ens out (\<lambda>r es. P r (AddMethod c sel imp ty x # es)) s' (k x s')) \<Longrightarrow>
   ens out P s (Let (class_addMethod rt c sel imp ty s) (case_prod k))"
  by (rule ens_bind [where ev = "\<lambda>x. [AddMethod c sel imp ty x]"]) (simp_all add: prim_defs split_def Let_def)

lemma ens_getAssociatedObject:
  "(\<And>x s'. ens out (\<lambda>r es. P r (GetAssociatedObject ob key x # es)) s' (k x s')) \<Longrightarrow>
   ens out P s (Let (objc_getAssociatedObject rt ob key s) (case_prod k))"
  by (rule ens_bind [where ev = "\<lambda>x. [GetAssociatedObject ob key x]"]) (simp_all add: prim_defs split_def Let_def)

lemma ens_msgSend_id:
  "(\<And>x s'. ens out (\<lambda>r es. P r (MsgSend rc sel args (RId x) # es)) s' (k x s')) \<Longrightarrow>
   ens out P s (Let (msgSend_id rt rc sel args s) (case_prod k))"
  by (rule ens_bind [where ev = "\<lambda>x. [MsgSend rc sel args (RId x)]"]) (simp_all add: prim_defs split_def Let_def)

lemma ens_msgSend_rect:
  "(\<And>x s'. ens out (\<lambda>r es. P r (MsgSend rc sel args (RRect x) # es)) s' (k x s')) \<Longrightarrow>
   ens out P s (Let (msgSend_rect rt rc sel args s) (case_prod k))"
  by (rule ens_bind [where ev = "\<lambda>x. [MsgSend rc sel args (RRect x)]"]) (simp_all add: prim_defs split_def Let_def)

lemma ens_msgSend_point:
  "(\<And>x s'. ens out (\<lambda>r es. P r (MsgSend rc sel args (RPoint x) # es)) s' (k x s')) \<Longrightarrow>
   ens out P s (Let (msgSend_point rt rc sel args s) (case_prod k))"
  by (rule ens_bind [where ev = "\<lambda>x. [MsgSend rc sel args (RPoint x)]"]) (simp_all add: prim_defs split_def Let_def)

lemma ens_msgSend_long:
  "(\<And>x s'. ens out (\<lambda>r es. P r (MsgSend rc sel args (RLong x) # es)) s' (k x s')) \<Longrightarrow>
   ens out P s (Let (msgSend_long rt rc sel args s) (case_prod k))"
  by (rule ens_bind [where ev = "\<lambda>x. [MsgSend rc sel args (RLong x)]"]) (simp_all add: prim_defs split_def Let_def)

lemma ens_msgSend_ulong:
  "(\<And>x s'. ens out (\<lambda>r es. P r (MsgSend rc sel args (RULong x) # es)) s' (k x s')) \<Longrightarrow>
   ens out P s (Let (msgSend_ulong rt rc sel args s) (case_prod k))"
  by (rule ens_bind [where ev = "\<lambda>x. [MsgSend rc sel args (RULong x)]"]) (simp_all add: prim_defs split_def Let_def)

lemma ens_msgSend_ushort:
  "(\<And>x s'. ens out (\<lambda>r es. P r (MsgSend rc sel args (RUShort x) # es)) s' (k x s')) \<Longrightarrow>
   ens out P s (Let (msgSend_ushort rt rc sel args s) (case_prod k))"
  by (rule ens_bind [where ev = "\<lambda>x. [MsgSend rc sel args (RUShort x)]"]) (simp_all add: prim_defs split_def Let_def)

lemma ens_msgSend_cstr:
  "(\<And>x s'. ens out (\<lambda>r es. P r (MsgSend rc sel args (RCStr x) # es)) s' (k x s')) \<Longrightarrow>
   ens out P s (Let (msgSend_cstr rt rc sel args s) (case_prod k))"
  by (rule ens_bind [where ev = "\<lambda>x. [MsgSend rc sel args (RCStr x)]"]) (simp_all add: prim_defs split_def Let_def)

lemma ens_load_char:
  "(\<And>x s'. ens out (\<lambda>r es. P r (Load p # es)) s' (k x s')) \<Longrightarrow>
   ens out P s (Let (load_char rt p s) (case_prod k))"
  by (rule ens_bind [where ev = "\<lambda>x. [Load p]"]) (simp_all add: prim_defs split_def Let_def)

lemma ens_registerClassPair:
  "(\<And>s'. ens out (\<lambda>r es. P r (RegisterClassPair c # es)) s' (k s')) \<Longrightarrow>
   ens out P s (Let (objc_registerClassPair rt c s) k)"
  by (rule ens_let [where ev = "[RegisterClassPair c]"]) (simp_all add: prim_defs)

lemma ens_setAssociatedObject:
  "(\<And>s'. ens out (\<lambda>r es. P r (SetAssociatedObject ob key v # es)) s' (k s')) \<Longrightarrow>
   ens out P s (Let (objc_setAssociatedObject rt ob key v s) k)"
  by (rule ens_let [where ev = "[SetAssociatedObject ob key v]"]) (simp_all add: prim_defs)

lemma ens_let_diag:
  "(\<And>s'. ens out (\<lambda>r es. P r (Fprintf line args # Fflush # es)) s' (k s')) \<Longrightarrow>
   ens out P s (Let (diag line args s) k)"
  by (rule ens_let [where ev = "[Fprintf line args, Fflush]"]) (simp_all add: prim_defs)

lemma ens_let_if:
  "(c \<Longrightarrow> ens out P s (Let a k)) \<Longrightarrow> (\<not> c \<Longrightarrow> ens out P s (Let b k)) \<Longrightarrow>
   ens out P s (Let (if c then a else b) k)"
  by simp

lemma ens_if:
  "(c \<Longrightarrow> ens out P s a) \<Longrightarrow> (\<not> c \<Longrightarrow> ens out P s b) \<Longrightarrow> ens out P s (if c then a else b)"
  by simp

lemma ens_return_diag: "P r [Fprintf line args, Fflush] \<Longrightarrow> ens (\<lambda>x. x) P s (r, diag line args s)"
  by (simp add: ens_def prim_defs)

lemma ens_return: "P r [] \<Longrightarrow> ens (\<lambda>x. x) P s (r, s)"
  by (simp add: ens_def)

lemma ens_return_msgSend_id:
  "(\<And>x. P x [MsgSend rc sel args (RId x)]) \<Longrightarrow> ens (\<lambda>x. x) P s (msgSend_id rt rc sel args s)"
  by (simp add: ens_def prim_defs split_def Let_def)

lemma ens_void_diag: "P () [Fprintf line args, Fflush] \<Longrightarrow> ens (Pair ()) P s (diag line args s)"
  by (simp add: ens_def prim_defs)

lemma ens_void_route: "P () [e] \<Longrightarrow> ens (Pair ()) P s (route rt e s)"
  by (simp add: ens_def prim_defs)

lemmas ens_steps =
  ens_getClass ens_allocateClassPair ens_registerName ens_addMethod ens_getAssociatedObject
  ens_msgSend_id ens_msgSend_rect ens_msgSend_point ens_msgSend_long ens_msgSend_ulong
  ens_msgSend_ushort ens_msgSend_cstr ens_load_char
  ens_registerClassPair ens_setAssociatedObject ens_let_diag ens_let_if ens_if
  ens_return_diag ens_return ens_return_msgSend_id ens_void_diag ens_void_route

text \<open>A call of a function whose postcondition is known, and its use as the last step.\<close>

lemma ens_call:
  assumes f: "ens (\<lambda>x. x) Q s fs"
      and k: "\<And>x s' pre. Q x pre \<Longrightarrow> ens out (\<lambda>r es. P r (pre @ es)) s' (k x s')"
  shows "ens out P s (case fs of (x, s') \<Rightarrow> k x s')"
proof -
  from f obtain pre where pre: "trace (snd fs) = trace s @ pre" "Q (fst fs) pre"
    by (auto simp add: ens_def)
  from k [OF pre(2), of "snd fs"] obtain es
    where "trace (snd (out (k (fst fs) (snd fs)))) = trace (snd fs) @ es"
      and "P (fst (out (k (fst fs) (snd fs)))) (pre @ es)"
    by (auto simp add: ens_def)
  then show ?thesis
    by (auto simp add: ens_def split_def pre(1))
qed

lemma ens_weaken:
  "ens out Q s x \<Longrightarrow> (\<And>r es. Q r es \<Longrightarrow> P r es) \<Longrightarrow> ens out P s x"
  by (auto simp add: ens_def)

lemma ens_option:
  "(x = None \<Longrightarrow> ens out P s a) \<Longrightarrow> (\<And>c. x = Some c \<Longrightarrow> ens out P s (b c)) \<Longrightarrow>
   ens out P s (case x of None \<Rightarrow> a | Some c \<Rightarrow> b c)"
  by (cases x) simp_all

text \<open>The first lookup of a constructor and of a callback, tied to what the runtime answers in the starting world.\<close>

lemma ens_getClass_world:
  assumes k: "\<And>s'. ens out (\<lambda>r es. P r (GetClass n (fst (rt_getClass rt n (world s))) # es)) s'
            (k (fst (rt_getClass rt n (world s))) s')"
  shows "ens out P s (Let (objc_getClass rt n s) (case_prod k))"
proof -
  let ?c = "fst (rt_getClass rt n (world s))"
  let ?s = "snd (objc_getClass rt n s)"
  have 1: "fst (objc_getClass rt n s) = ?c"
    by (simp add: prim_defs split_def Let_def)
  have 2: "trace ?s = trace s @ [GetClass n ?c]"
    by (simp add: prim_defs split_def Let_def)
  from k [of ?s] obtain es
    where "trace (snd (out (k ?c ?s))) = trace ?s @ es"
      and "P (fst (out (k ?c ?s))) (GetClass n ?c # es)"
    by (auto simp add: ens_def)
  then show ?thesis
    by (auto simp add: ens_def split_def Let_def 1 2)
qed

lemmas ens_steps_world =
  ens_getClass_world ens_allocateClassPair ens_registerName ens_addMethod ens_getAssociatedObject
  ens_msgSend_id ens_registerClassPair ens_setAssociatedObject ens_let_diag ens_let_if ens_if
  ens_return_diag ens_return ens_return_msgSend_id

lemma ens_trace: "ens (\<lambda>x. x) P s x \<Longrightarrow> \<exists>es. trace (snd x) = trace s @ es \<and> P (fst x) es"
  by (simp add: ens_def)

lemma ens_stored_token:
  assumes k: "\<And>s'. ens out (\<lambda>r es. P r (GetAssociatedObject ob key
                 (fst (rt_getAssociatedObject rt ob key (world s))) # es)) s'
            (k (fst (rt_getAssociatedObject rt ob key (world s))) s')"
  shows "ens out P s (case objc_getAssociatedObject rt ob key s of (x, s') \<Rightarrow> k x s')"
proof -
  let ?v = "fst (rt_getAssociatedObject rt ob key (world s))"
  let ?s = "snd (objc_getAssociatedObject rt ob key s)"
  have 1: "fst (objc_getAssociatedObject rt ob key s) = ?v"
    by (simp add: prim_defs split_def Let_def)
  have 2: "trace ?s = trace s @ [GetAssociatedObject ob key ?v]"
    by (simp add: prim_defs split_def Let_def)
  from k [of ?s] obtain es
    where "trace (snd (out (k ?v ?s))) = trace ?s @ es"
      and "P (fst (out (k ?v ?s))) (GetAssociatedObject ob key ?v # es)"
    by (auto simp add: ens_def)
  then show ?thesis
    by (auto simp add: ens_def split_def 1 2)
qed

lemmas ens_callback_steps =
  ens_stored_token
  ens_registerName [unfolded Let_def]
  ens_msgSend_id [unfolded Let_def] ens_msgSend_rect [unfolded Let_def]
  ens_msgSend_point [unfolded Let_def] ens_msgSend_long [unfolded Let_def]
  ens_msgSend_ulong [unfolded Let_def] ens_msgSend_ushort [unfolded Let_def]
  ens_msgSend_cstr [unfolded Let_def] ens_load_char [unfolded Let_def]
  ens_if ens_return ens_void_diag ens_void_route


section \<open>Rules for the runtime state\<close>

text \<open>The reference runtime keeps the contract of the registry, for every name.\<close>

lemma reference_runtime_contract: "registry_contract reference_runtime name"
  by (auto simp add: registry_contract_def preserves_def pending_def resolves_def reference_runtime_def
        split: option.splits if_splits)

text \<open>One rule for each step, as for the events.\<close>

lemma preserves_True: "preserves rt (\<lambda>w. True)"
  by (simp add: preserves_def)

lemma preserves_guard: "preserves rt I \<Longrightarrow> preserves rt (\<lambda>w. b \<longrightarrow> I w)"
  by (simp add: preserves_def)

lemma contract_pending: "registry_contract rt name \<Longrightarrow> preserves rt (\<lambda>w. b \<longrightarrow> pending rt name c w)"
  by (simp add: registry_contract_def preserves_guard)

lemma contract_resolves: "registry_contract rt name \<Longrightarrow> preserves rt (resolves rt name c)"
  by (simp add: registry_contract_def)

lemma ensw_getClass:
  "preserves rt I \<Longrightarrow> (\<And>x s'. ensw I out Q s' (k x s')) \<Longrightarrow>
   ensw I out Q s (Let (objc_getClass rt n s) (case_prod k))"
  by (auto simp add: ensw_def preserves_def prim_defs split_def Let_def)

lemma ensw_registerName:
  "preserves rt I \<Longrightarrow> (\<And>x s'. ensw I out Q s' (k x s')) \<Longrightarrow>
   ensw I out Q s (Let (sel_registerName rt n s) (case_prod k))"
  by (auto simp add: ensw_def preserves_def prim_defs split_def Let_def)

lemma ensw_addMethod:
  "preserves rt I \<Longrightarrow> (\<And>x s'. ensw I out Q s' (k x s')) \<Longrightarrow>
   ensw I out Q s (Let (class_addMethod rt c sel imp ty s) (case_prod k))"
  by (auto simp add: ensw_def preserves_def prim_defs split_def Let_def)

lemma ensw_msgSend_id:
  "preserves rt I \<Longrightarrow> (\<And>x s'. ensw I out Q s' (k x s')) \<Longrightarrow>
   ensw I out Q s (Let (msgSend_id rt r sel args s) (case_prod k))"
  by (auto simp add: ensw_def preserves_def prim_defs split_def Let_def)

lemma ensw_setAssociatedObject:
  "preserves rt I \<Longrightarrow> (\<And>s'. ensw I out Q s' (k s')) \<Longrightarrow>
   ensw I out Q s (Let (objc_setAssociatedObject rt ob key v s) k)"
  by (auto simp add: ensw_def preserves_def prim_defs split_def Let_def)

lemma ensw_let_diag:
  "(\<And>s'. ensw I out Q s' (k s')) \<Longrightarrow> ensw I out Q s (Let (diag line args s) k)"
  by (auto simp add: ensw_def prim_defs Let_def)

lemma ensw_allocateClassPair:
  "registry_contract rt name \<Longrightarrow>
   (\<And>c s'. ensw (\<lambda>w. c \<noteq> 0 \<longrightarrow> pending rt name c w) out Q s' (k c s')) \<Longrightarrow>
   ensw I out Q s (Let (objc_allocateClassPair rt super name s) (case_prod k))"
  by (auto simp add: ensw_def registry_contract_def prim_defs split_def Let_def)

lemma ensw_registerClassPair:
  "c \<noteq> 0 \<Longrightarrow> (\<And>s'. ensw (resolves rt name c) out Q s' (k s')) \<Longrightarrow>
   ensw (\<lambda>w. c \<noteq> 0 \<longrightarrow> pending rt name c w) out Q s (Let (objc_registerClassPair rt c s) k)"
  by (auto simp add: ensw_def pending_def prim_defs Let_def)

lemma ensw_lookup_failed:
  "(\<And>s'. ensw (\<lambda>w. True) out Q s' (k 0 s')) \<Longrightarrow>
   ensw (\<lambda>w. fst (rt_getClass rt name w) = 0) out Q s (Let (objc_getClass rt name s) (case_prod k))"
  by (auto simp add: ensw_def prim_defs split_def Let_def)

lemma ensw_let_if:
  "(b \<Longrightarrow> ensw I out Q s (Let x k)) \<Longrightarrow> (\<not> b \<Longrightarrow> ensw I out Q s (Let y k)) \<Longrightarrow>
   ensw I out Q s (Let (if b then x else y) k)"
  by simp

lemma ensw_if:
  "(b \<Longrightarrow> ensw I out Q s x) \<Longrightarrow> (\<not> b \<Longrightarrow> ensw I out Q s y) \<Longrightarrow> ensw I out Q s (if b then x else y)"
  by simp

lemma ensw_return_diag: "(\<And>w. I w \<Longrightarrow> Q r w) \<Longrightarrow> ensw I (\<lambda>x. x) Q s (r, diag line args s)"
  by (simp add: ensw_def prim_defs)

lemma ensw_return: "(\<And>w. I w \<Longrightarrow> Q r w) \<Longrightarrow> ensw I (\<lambda>x. x) Q s (r, s)"
  by (simp add: ensw_def)

lemma ensw_call:
  "ensw I (\<lambda>x. x) Qf s fs \<Longrightarrow> (\<And>x s'. ensw (Qf x) out Q s' (k x s')) \<Longrightarrow>
   ensw I out Q s (case fs of (x, s') \<Rightarrow> k x s')"
  by (auto simp add: ensw_def split_def)

lemma ensw_conseq:
  "ensw I' out Q' s x \<Longrightarrow> (\<And>w. I w \<Longrightarrow> I' w) \<Longrightarrow> (\<And>r w. Q' r w \<Longrightarrow> Q r w) \<Longrightarrow> ensw I out Q s x"
  by (auto simp add: ensw_def)

lemma ensw_option:
  "(x = None \<Longrightarrow> ensw I out Q s a) \<Longrightarrow> (\<And>c. x = Some c \<Longrightarrow> ensw I out Q s (b c)) \<Longrightarrow>
   ensw I out Q s (case x of None \<Rightarrow> a | Some c \<Rightarrow> b c)"
  by (cases x) simp_all

lemmas ensw_steps =
  ensw_getClass ensw_registerName ensw_addMethod ensw_msgSend_id ensw_setAssociatedObject
  ensw_let_diag ensw_allocateClassPair ensw_registerClassPair ensw_let_if ensw_if
  ensw_return_diag ensw_return


section \<open>The validated invocation gateway: properties\<close>

text \<open>
  Claim C10. In the rectangle-plus-three-scalar shim, a call whose \<open>arg2\<close> or \<open>arg3\<close>
  exceeds \<open>0xFFFFFFFF\<close> returns \<open>NULL\<close>, leaves the outside world as it was, sends no
  message, reads through no pointer, and ends by printing and flushing a line tagged
  \<open>[objc_wrapper_4]\<close>. When the receiver, the selector and the rectangle pointer pass
  their own checks, that line is the one naming the scalar and printing its value.
\<close>

theorem wrapper_4_rejects_large_scalars:
  assumes "arg2 > 0xFFFFFFFF \<or> arg3 > 0xFFFFFFFF"
  shows "fst (objc_msgSend_wrapper_4 rt receiver selector rect_ptr arg2 arg3 arg4 s) = 0
     \<and> untouched s (snd (objc_msgSend_wrapper_4 rt receiver selector rect_ptr arg2 arg3 arg4 s))
     \<and> ends_with_diag ''[objc_wrapper_4]''
          (new_events s (snd (objc_msgSend_wrapper_4 rt receiver selector rect_ptr arg2 arg3 arg4 s)))
     \<and> (\<not> invalid_handle receiver \<and> selector \<noteq> 0 \<and> \<not> invalid_handle rect_ptr \<longrightarrow>
          new_events s (snd (objc_msgSend_wrapper_4 rt receiver selector rect_ptr arg2 arg3 arg4 s)) =
            (if arg2 > 0xFFFFFFFF
             then [Fprintf ''[objc_wrapper_4] arg2 (styleMask) too large: %lu'' [ULongArg arg2], Fflush]
             else [Fprintf ''[objc_wrapper_4] arg3 (backingType) too large: %lu'' [ULongArg arg3], Fflush]))"
  using assms
  by (auto simp add: objc_msgSend_wrapper_4_def ends_with_diag_def tagged_def invalid_handle_def)

theorem wrapper_4_rejects_large_scalars_witness:
  "(0x100000000 :: 64 word) > 0xFFFFFFFF
   \<and> objc_msgSend_wrapper_4 reference_runtime 0x2000 0x3000 0x4000 0x100000000 2 True (start initial_world)
     = (0, \<lparr>world = initial_world,
            trace = [Fprintf ''[objc_wrapper_4] arg2 (styleMask) too large: %lu'' [ULongArg 0x100000000], Fflush]\<rparr>)"
  using wrapper_4_rejects_large_scalars [of "0x100000000" 2 reference_runtime "0x2000" "0x3000" "0x4000" True "start initial_world"]
  by (simp add: objc_msgSend_wrapper_4_def diag_def start_def)

text \<open>
  Claim C2. Let \<open>rect\<close> be the rectangle behind \<open>rect_ptr\<close>. If its width or its height
  is negative or greater than 16384, both rectangle-accepting shims return \<open>NULL\<close>, send
  no message and leave the outside world as it was.
\<close>

theorem rect_shims_reject_bad_dimensions:
  assumes "rect = rt_load_rect rt rect_ptr (world s)"
      and "d_lt (size_width rect) (Finite 0) \<or> d_lt (size_height rect) (Finite 0)
           \<or> d_gt (size_width rect) (Finite 16384) \<or> d_gt (size_height rect) (Finite 16384)"
  shows "fst (objc_msgSend_wrapper_rect rt receiver selector rect_ptr s) = 0
     \<and> \<not> list_ex is_MsgSend (new_events s (snd (objc_msgSend_wrapper_rect rt receiver selector rect_ptr s)))
     \<and> world (snd (objc_msgSend_wrapper_rect rt receiver selector rect_ptr s)) = world s
     \<and> fst (objc_msgSend_wrapper_4 rt receiver selector rect_ptr arg2 arg3 arg4 s) = 0
     \<and> \<not> list_ex is_MsgSend (new_events s (snd (objc_msgSend_wrapper_4 rt receiver selector rect_ptr arg2 arg3 arg4 s)))
     \<and> world (snd (objc_msgSend_wrapper_4 rt receiver selector rect_ptr arg2 arg3 arg4 s)) = world s"
  using assms
  by (auto simp add: objc_msgSend_wrapper_rect_def objc_msgSend_wrapper_4_def diag_def load_rect_def emit_def new_events_def)

theorem rect_shims_reject_bad_dimensions_witness:
  "d_gt (size_width (rt_load_rect reference_runtime 0x4000
            (initial_world\<lparr>w_rect_mem := empty_rect\<lparr>size_width := Finite 20000\<rparr>\<rparr>))) (Finite 16384)
   \<and> objc_msgSend_wrapper_rect reference_runtime 0x2000 0x3000 0x4000
        (start (initial_world\<lparr>w_rect_mem := empty_rect\<lparr>size_width := Finite 20000\<rparr>\<rparr>))
     = (0, \<lparr>world = initial_world\<lparr>w_rect_mem := empty_rect\<lparr>size_width := Finite 20000\<rparr>\<rparr>,
            trace = [Load 0x4000,
                     Fprintf ''[objc_wrapper_rect] Rect dimensions too large: w=%f, h=%f''
                       [DoubleArg (Finite 20000), DoubleArg (Finite 0)], Fflush]\<rparr>)
   \<and> fst (objc_msgSend_wrapper_4 reference_runtime 0x2000 0x3000 0x4000 1 2 True
        (start (initial_world\<lparr>w_rect_mem := empty_rect\<lparr>size_width := Finite 20000\<rparr>\<rparr>))) = 0"
  using rect_shims_reject_bad_dimensions [of "empty_rect\<lparr>size_width := Finite 20000\<rparr>" reference_runtime "0x4000"
      "start (initial_world\<lparr>w_rect_mem := empty_rect\<lparr>size_width := Finite 20000\<rparr>\<rparr>)" "0x2000" "0x3000" 1 2 True]
  by (simp add: objc_msgSend_wrapper_rect_def diag_def start_def reference_runtime_def load_rect_def emit_def
        initial_world_def empty_rect_def d_gt_def)

text \<open>
  Claim C1 as written fails: the shims test selectors for \<open>NULL\<close> only, the string shim
  does not test the alignment of the string, and the one-handle shim lets a \<open>NULL\<close>
  argument through (``can be NULL for some methods''). Three calls with such an argument
  that reach \<open>objc_msgSend\<close>:
\<close>

theorem gateway_invalid_pointer_counterexample:
  "invalid_handle 0
   \<and> objc_msgSend_void_1 reference_runtime 0x2000 0x3000 0 (start initial_world)
       = \<lparr>world = initial_world, trace = [MsgSend 0x2000 0x3000 [AId 0] RVoid]\<rparr>
   \<and> invalid_handle 0x3001
   \<and> objc_msgSend_void_0 reference_runtime 0x2000 0x3001 (start initial_world)
       = \<lparr>world = initial_world, trace = [MsgSend 0x2000 0x3001 [] RVoid]\<rparr>
   \<and> invalid_handle 0x4001
   \<and> trace (snd (objc_msgSend_wrapper_string reference_runtime 0x2000 0x3000 0x4001 (start initial_world)))
       = [MsgSend 0x2000 0x3000 [ACStr 0x4001] (RId 0x100000)]"
  by (simp add: invalid_handle_def gateway_defs prim_defs start_def reference_runtime_def initial_world_def)

text \<open>
  Claim C1, amended. In every shim a \<open>NULL\<close> selector is turned away, and in every
  shim but the rectangle-returning one so is a receiver that is null, below \<open>0x1000\<close> or
  not divisible by 8; the rectangle shims turn away such a rectangle pointer, the string
  shim a string pointer that is null or below \<open>0x1000\<close>, the one-handle shim an argument
  that is not null and is below \<open>0x1000\<close> or misaligned; the rectangle-returning shim
  turns away a null receiver. Turned away means: the result is \<open>NULL\<close> (nothing for the
  \<open>void\<close> shims, the all-zero rectangle for the last one), the outside world is as it
  was, no message was sent and nothing was read through a pointer.
\<close>

theorem gateway_rejects_invalid_arguments:
  "(invalid_handle receiver \<or> selector = 0 \<longrightarrow>
      fst (objc_msgSend_wrapper rt receiver selector s) = 0
      \<and> untouched s (snd (objc_msgSend_wrapper rt receiver selector s)))
   \<and> (invalid_handle receiver \<or> selector = 0 \<or> utf8_string = 0 \<or> utf8_string < 0x1000 \<longrightarrow>
      fst (objc_msgSend_wrapper_string rt receiver selector utf8_string s) = 0
      \<and> untouched s (snd (objc_msgSend_wrapper_string rt receiver selector utf8_string s)))
   \<and> (invalid_handle receiver \<or> selector = 0 \<or> invalid_handle rect_ptr \<longrightarrow>
      fst (objc_msgSend_wrapper_rect rt receiver selector rect_ptr s) = 0
      \<and> untouched s (snd (objc_msgSend_wrapper_rect rt receiver selector rect_ptr s)))
   \<and> (invalid_handle receiver \<or> selector = 0 \<or> invalid_handle rect_ptr \<longrightarrow>
      fst (objc_msgSend_wrapper_4 rt receiver selector rect_ptr arg2 arg3 arg4 s) = 0
      \<and> untouched s (snd (objc_msgSend_wrapper_4 rt receiver selector rect_ptr arg2 arg3 arg4 s)))
   \<and> (invalid_handle receiver \<or> selector = 0 \<or> (arg1 \<noteq> 0 \<and> invalid_handle arg1) \<longrightarrow>
      untouched s (objc_msgSend_void_1 rt receiver selector arg1 s))
   \<and> (invalid_handle receiver \<or> selector = 0 \<longrightarrow>
      untouched s (objc_msgSend_void_0 rt receiver selector s))
   \<and> (invalid_handle receiver \<or> selector = 0 \<longrightarrow>
      untouched s (objc_msgSend_void_1_bool rt receiver selector flag s))
   \<and> (invalid_handle receiver \<or> selector = 0 \<longrightarrow>
      fst (objc_msgSend_wrapper_1_uint rt receiver selector index s) = 0
      \<and> untouched s (snd (objc_msgSend_wrapper_1_uint rt receiver selector index s)))
   \<and> (receiver = 0 \<or> selector = 0 \<longrightarrow>
      fst (objc_msgSend_returns_NSRect rt receiver selector s) = empty_rect
      \<and> untouched s (snd (objc_msgSend_returns_NSRect rt receiver selector s)))"
  by (auto simp add: gateway_defs invalid_handle_def)

theorem gateway_rejects_invalid_arguments_witness:
  "invalid_handle 0
   \<and> objc_msgSend_wrapper reference_runtime 0 0x3000 (start initial_world) = (0, start initial_world)
   \<and> fst (objc_msgSend_wrapper_string reference_runtime 0 0x3000 0x4000 (start initial_world)) = 0
   \<and> fst (objc_msgSend_wrapper_rect reference_runtime 0 0x3000 0x4000 (start initial_world)) = 0
   \<and> fst (objc_msgSend_wrapper_4 reference_runtime 0 0x3000 0x4000 1 2 True (start initial_world)) = 0
   \<and> trace (objc_msgSend_void_1 reference_runtime 0 0x3000 0x4000 (start initial_world))
        = [Fprintf ''[objc_msgSend_void_1] NULL receiver'' [], Fflush]
   \<and> trace (objc_msgSend_void_0 reference_runtime 0 0x3000 (start initial_world))
        = [Fprintf ''[objc_msgSend_void_0] NULL receiver'' [], Fflush]
   \<and> trace (objc_msgSend_void_1_bool reference_runtime 0 0x3000 True (start initial_world))
        = [Fprintf ''[objc_msgSend_void_1_bool] NULL receiver'' [], Fflush]
   \<and> fst (objc_msgSend_wrapper_1_uint reference_runtime 0 0x3000 5 (start initial_world)) = 0
   \<and> fst (objc_msgSend_returns_NSRect reference_runtime 0 0x3000 (start initial_world)) = empty_rect"
  using gateway_rejects_invalid_arguments [of 0 "0x3000" reference_runtime "start initial_world" "0x4000" "0x4000" 1 2 True "0x4000" True 5]
  by (simp add: gateway_defs diag_def start_def invalid_handle_def)

text \<open>
  The rectangle-returning shim tests its receiver for \<open>NULL\<close> only; a receiver below the
  floor reaches \<open>objc_msgSend\<close>. Every other shim has the address and alignment tests.
\<close>

lemma returns_NSRect_low_receiver:
  "invalid_handle 0x8
   \<and> trace (snd (objc_msgSend_returns_NSRect reference_runtime 0x8 0x3000 (start initial_world)))
      = [MsgSend 0x8 0x3000 [] (RRect empty_rect)]"
  by (simp add: invalid_handle_def gateway_defs prim_defs start_def reference_runtime_def initial_world_def)

text \<open>
  The lines the shims print. A call of a shim that sent no message was refused; for every
  shim but one the events it added are then exactly one printed line and its flush (after
  the read of the rectangle, when the rectangle itself was refused), the line names the
  shim and the test that failed, and it prints the value that failed the test unless
  that value is the \<open>NULL\<close> the line names.
\<close>

lemma wrapper_string_rejection_lines:
  "\<not> list_ex is_MsgSend (new_events s (snd (objc_msgSend_wrapper_string rt receiver selector utf8_string s))) \<Longrightarrow>
     new_events s (snd (objc_msgSend_wrapper_string rt receiver selector utf8_string s))
       = [Fprintf ''[objc_wrapper_string] NULL receiver'' [], Fflush] \<and> receiver = 0
   \<or> new_events s (snd (objc_msgSend_wrapper_string rt receiver selector utf8_string s))
       = [Fprintf ''[objc_wrapper_string] NULL selector'' [], Fflush] \<and> selector = 0
   \<or> new_events s (snd (objc_msgSend_wrapper_string rt receiver selector utf8_string s))
       = [Fprintf ''[objc_wrapper_string] NULL utf8_string'' [], Fflush] \<and> utf8_string = 0
   \<or> new_events s (snd (objc_msgSend_wrapper_string rt receiver selector utf8_string s))
       = [Fprintf ''[objc_wrapper_string] Invalid receiver address: %p'' [PtrArg receiver], Fflush]
       \<and> receiver < 0x1000
   \<or> new_events s (snd (objc_msgSend_wrapper_string rt receiver selector utf8_string s))
       = [Fprintf ''[objc_wrapper_string] Receiver not aligned: %p'' [PtrArg receiver], Fflush]
       \<and> receiver mod 8 \<noteq> 0
   \<or> new_events s (snd (objc_msgSend_wrapper_string rt receiver selector utf8_string s))
       = [Fprintf ''[objc_wrapper_string] Invalid string address: %p'' [PtrArg utf8_string], Fflush]
       \<and> utf8_string < 0x1000"
  by (simp add: objc_msgSend_wrapper_string_def prim_defs new_events_def split_def Let_def
        split: if_splits)

lemma wrapper_rect_rejection_lines:
  "\<not> list_ex is_MsgSend (new_events s (snd (objc_msgSend_wrapper_rect rt receiver selector rect_ptr s))) \<Longrightarrow>
     new_events s (snd (objc_msgSend_wrapper_rect rt receiver selector rect_ptr s))
       = [Fprintf ''[objc_wrapper_rect] NULL receiver'' [], Fflush] \<and> receiver = 0
   \<or> new_events s (snd (objc_msgSend_wrapper_rect rt receiver selector rect_ptr s))
       = [Fprintf ''[objc_wrapper_rect] NULL selector'' [], Fflush] \<and> selector = 0
   \<or> new_events s (snd (objc_msgSend_wrapper_rect rt receiver selector rect_ptr s))
       = [Fprintf ''[objc_wrapper_rect] NULL rect_ptr'' [], Fflush] \<and> rect_ptr = 0
   \<or> new_events s (snd (objc_msgSend_wrapper_rect rt receiver selector rect_ptr s))
       = [Fprintf ''[objc_wrapper_rect] Invalid receiver address: %p'' [PtrArg receiver], Fflush]
       \<and> receiver < 0x1000
   \<or> new_events s (snd (objc_msgSend_wrapper_rect rt receiver selector rect_ptr s))
       = [Fprintf ''[objc_wrapper_rect] Receiver not aligned: %p'' [PtrArg receiver], Fflush]
       \<and> receiver mod 8 \<noteq> 0
   \<or> new_events s (snd (objc_msgSend_wrapper_rect rt receiver selector rect_ptr s))
       = [Fprintf ''[objc_wrapper_rect] Invalid rect_ptr address: %p'' [PtrArg rect_ptr], Fflush]
       \<and> rect_ptr < 0x1000
   \<or> new_events s (snd (objc_msgSend_wrapper_rect rt receiver selector rect_ptr s))
       = [Fprintf ''[objc_wrapper_rect] rect_ptr not aligned: %p'' [PtrArg rect_ptr], Fflush]
       \<and> rect_ptr mod 8 \<noteq> 0
   \<or> new_events s (snd (objc_msgSend_wrapper_rect rt receiver selector rect_ptr s))
       = [Load rect_ptr,
          Fprintf ''[objc_wrapper_rect] Invalid rect dimensions: w=%f, h=%f''
            [DoubleArg (size_width (rt_load_rect rt rect_ptr (world s))),
             DoubleArg (size_height (rt_load_rect rt rect_ptr (world s)))], Fflush]
       \<and> (d_lt (size_width (rt_load_rect rt rect_ptr (world s))) (Finite 0)
          \<or> d_lt (size_height (rt_load_rect rt rect_ptr (world s))) (Finite 0))
   \<or> new_events s (snd (objc_msgSend_wrapper_rect rt receiver selector rect_ptr s))
       = [Load rect_ptr,
          Fprintf ''[objc_wrapper_rect] Rect dimensions too large: w=%f, h=%f''
            [DoubleArg (size_width (rt_load_rect rt rect_ptr (world s))),
             DoubleArg (size_height (rt_load_rect rt rect_ptr (world s)))], Fflush]
       \<and> (d_gt (size_width (rt_load_rect rt rect_ptr (world s))) (Finite 16384)
          \<or> d_gt (size_height (rt_load_rect rt rect_ptr (world s))) (Finite 16384))"
  by (simp add: objc_msgSend_wrapper_rect_def prim_defs new_events_def split_def Let_def
        split: if_splits)

lemma wrapper_4_rejection_lines:
  "\<not> list_ex is_MsgSend
       (new_events s (snd (objc_msgSend_wrapper_4 rt receiver selector rect_ptr arg2 arg3 arg4 s))) \<Longrightarrow>
     new_events s (snd (objc_msgSend_wrapper_4 rt receiver selector rect_ptr arg2 arg3 arg4 s))
       = [Fprintf ''[objc_wrapper_4] NULL receiver'' [], Fflush] \<and> receiver = 0
   \<or> new_events s (snd (objc_msgSend_wrapper_4 rt receiver selector rect_ptr arg2 arg3 arg4 s))
       = [Fprintf ''[objc_wrapper_4] NULL selector'' [], Fflush] \<and> selector = 0
   \<or> new_events s (snd (objc_msgSend_wrapper_4 rt receiver selector rect_ptr arg2 arg3 arg4 s))
       = [Fprintf ''[objc_wrapper_4] NULL rect_ptr'' [], Fflush] \<and> rect_ptr = 0
   \<or> new_events s (snd (objc_msgSend_wrapper_4 rt receiver selector rect_ptr arg2 arg3 arg4 s))
       = [Fprintf ''[objc_wrapper_4] Invalid receiver address: %p'' [PtrArg receiver], Fflush]
       \<and> receiver < 0x1000
   \<or> new_events s (snd (objc_msgSend_wrapper_4 rt receiver selector rect_ptr arg2 arg3 arg4 s))
       = [Fprintf ''[objc_wrapper_4] Receiver not aligned: %p'' [PtrArg receiver], Fflush]
       \<and> receiver mod 8 \<noteq> 0
   \<or> new_events s (snd (objc_msgSend_wrapper_4 rt receiver selector rect_ptr arg2 arg3 arg4 s))
       = [Fprintf ''[objc_wrapper_4] Invalid rect_ptr address: %p'' [PtrArg rect_ptr], Fflush]
       \<and> rect_ptr < 0x1000
   \<or> new_events s (snd (objc_msgSend_wrapper_4 rt receiver selector rect_ptr arg2 arg3 arg4 s))
       = [Fprintf ''[objc_wrapper_4] rect_ptr not aligned: %p'' [PtrArg rect_ptr], Fflush]
       \<and> rect_ptr mod 8 \<noteq> 0
   \<or> new_events s (snd (objc_msgSend_wrapper_4 rt receiver selector rect_ptr arg2 arg3 arg4 s))
       = [Fprintf ''[objc_wrapper_4] arg2 (styleMask) too large: %lu'' [ULongArg arg2], Fflush]
       \<and> arg2 > 0xFFFFFFFF
   \<or> new_events s (snd (objc_msgSend_wrapper_4 rt receiver selector rect_ptr arg2 arg3 arg4 s))
       = [Fprintf ''[objc_wrapper_4] arg3 (backingType) too large: %lu'' [ULongArg arg3], Fflush]
       \<and> arg3 > 0xFFFFFFFF
   \<or> new_events s (snd (objc_msgSend_wrapper_4 rt receiver selector rect_ptr arg2 arg3 arg4 s))
       = [Load rect_ptr,
          Fprintf ''[objc_wrapper_4] Invalid rect dimensions: w=%f, h=%f''
            [DoubleArg (size_width (rt_load_rect rt rect_ptr (world s))),
             DoubleArg (size_height (rt_load_rect rt rect_ptr (world s)))], Fflush]
       \<and> (d_lt (size_width (rt_load_rect rt rect_ptr (world s))) (Finite 0)
          \<or> d_lt (size_height (rt_load_rect rt rect_ptr (world s))) (Finite 0))
   \<or> new_events s (snd (objc_msgSend_wrapper_4 rt receiver selector rect_ptr arg2 arg3 arg4 s))
       = [Load rect_ptr,
          Fprintf ''[objc_wrapper_4] Rect dimensions too large: w=%f, h=%f''
            [DoubleArg (size_width (rt_load_rect rt rect_ptr (world s))),
             DoubleArg (size_height (rt_load_rect rt rect_ptr (world s)))], Fflush]
       \<and> (d_gt (size_width (rt_load_rect rt rect_ptr (world s))) (Finite 16384)
          \<or> d_gt (size_height (rt_load_rect rt rect_ptr (world s))) (Finite 16384))"
  by (simp add: objc_msgSend_wrapper_4_def prim_defs new_events_def split_def Let_def
        split: if_splits)

lemma void_1_rejection_lines:
  "\<not> list_ex is_MsgSend (new_events s (objc_msgSend_void_1 rt receiver selector arg1 s)) \<Longrightarrow>
     new_events s (objc_msgSend_void_1 rt receiver selector arg1 s)
       = [Fprintf ''[objc_msgSend_void_1] NULL receiver'' [], Fflush] \<and> receiver = 0
   \<or> new_events s (objc_msgSend_void_1 rt receiver selector arg1 s)
       = [Fprintf ''[objc_msgSend_void_1] NULL selector'' [], Fflush] \<and> selector = 0
   \<or> new_events s (objc_msgSend_void_1 rt receiver selector arg1 s)
       = [Fprintf ''[objc_msgSend_void_1] Invalid receiver: %p'' [PtrArg receiver], Fflush]
       \<and> invalid_handle receiver
   \<or> new_events s (objc_msgSend_void_1 rt receiver selector arg1 s)
       = [Fprintf ''[objc_msgSend_void_1] Invalid arg1: %p'' [PtrArg arg1], Fflush]
       \<and> arg1 \<noteq> 0 \<and> invalid_handle arg1"
  by (simp add: objc_msgSend_void_1_def prim_defs new_events_def invalid_handle_def
        split: if_splits)

lemma void_0_rejection_lines:
  "\<not> list_ex is_MsgSend (new_events s (objc_msgSend_void_0 rt receiver selector s)) \<Longrightarrow>
     new_events s (objc_msgSend_void_0 rt receiver selector s)
       = [Fprintf ''[objc_msgSend_void_0] NULL receiver'' [], Fflush] \<and> receiver = 0
   \<or> new_events s (objc_msgSend_void_0 rt receiver selector s)
       = [Fprintf ''[objc_msgSend_void_0] NULL selector'' [], Fflush] \<and> selector = 0
   \<or> new_events s (objc_msgSend_void_0 rt receiver selector s)
       = [Fprintf ''[objc_msgSend_void_0] Invalid receiver: %p'' [PtrArg receiver], Fflush]
       \<and> invalid_handle receiver"
  by (simp add: objc_msgSend_void_0_def prim_defs new_events_def invalid_handle_def
        split: if_splits)

lemma void_1_bool_rejection_lines:
  "\<not> list_ex is_MsgSend (new_events s (objc_msgSend_void_1_bool rt receiver selector flag s)) \<Longrightarrow>
     new_events s (objc_msgSend_void_1_bool rt receiver selector flag s)
       = [Fprintf ''[objc_msgSend_void_1_bool] NULL receiver'' [], Fflush] \<and> receiver = 0
   \<or> new_events s (objc_msgSend_void_1_bool rt receiver selector flag s)
       = [Fprintf ''[objc_msgSend_void_1_bool] NULL selector'' [], Fflush] \<and> selector = 0
   \<or> new_events s (objc_msgSend_void_1_bool rt receiver selector flag s)
       = [Fprintf ''[objc_msgSend_void_1_bool] Invalid receiver: %p'' [PtrArg receiver], Fflush]
       \<and> invalid_handle receiver"
  by (simp add: objc_msgSend_void_1_bool_def prim_defs new_events_def invalid_handle_def
        split: if_splits)

lemma wrapper_1_uint_rejection_lines:
  "\<not> list_ex is_MsgSend (new_events s (snd (objc_msgSend_wrapper_1_uint rt receiver selector index s))) \<Longrightarrow>
     new_events s (snd (objc_msgSend_wrapper_1_uint rt receiver selector index s))
       = [Fprintf ''[objc_msgSend_wrapper_1_uint] NULL receiver'' [], Fflush] \<and> receiver = 0
   \<or> new_events s (snd (objc_msgSend_wrapper_1_uint rt receiver selector index s))
       = [Fprintf ''[objc_msgSend_wrapper_1_uint] NULL selector'' [], Fflush] \<and> selector = 0
   \<or> new_events s (snd (objc_msgSend_wrapper_1_uint rt receiver selector index s))
       = [Fprintf ''[objc_msgSend_wrapper_1_uint] Invalid receiver: %p'' [PtrArg receiver], Fflush]
       \<and> invalid_handle receiver"
  by (simp add: objc_msgSend_wrapper_1_uint_def prim_defs new_events_def invalid_handle_def
        split_def Let_def split: if_splits)

lemma returns_NSRect_rejection_lines:
  "\<not> list_ex is_MsgSend (new_events s (snd (objc_msgSend_returns_NSRect rt receiver selector s))) \<Longrightarrow>
     new_events s (snd (objc_msgSend_returns_NSRect rt receiver selector s))
       = [Fprintf ''[objc_msgSend_returns_NSRect] NULL receiver'' [], Fflush] \<and> receiver = 0
   \<or> new_events s (snd (objc_msgSend_returns_NSRect rt receiver selector s))
       = [Fprintf ''[objc_msgSend_returns_NSRect] NULL selector'' [], Fflush] \<and> selector = 0"
  by (simp add: objc_msgSend_returns_NSRect_def prim_defs new_events_def
        split_def Let_def split: if_splits)

text \<open>
  \<open>objc_msgSend_wrapper\<close> is the exception. It refuses a receiver or selector without a
  word, and when it refuses the ISA word the only line is the one it prints on every
  call, before the test.
\<close>

lemma wrapper_rejection_lines:
  "\<not> list_ex is_MsgSend (new_events s (snd (objc_msgSend_wrapper rt receiver selector s))) \<Longrightarrow>
     objc_msgSend_wrapper rt receiver selector s = (0, s)
       \<and> (invalid_handle receiver \<or> selector = 0)
   \<or> fst (objc_msgSend_wrapper rt receiver selector s) = 0
       \<and> new_events s (snd (objc_msgSend_wrapper rt receiver selector s))
           = [Load receiver,
              Fprintf ''[objc_wrapper] receiver: %p, ISA pointer: %p''
                [PtrArg receiver, PtrArg (rt_load_ptr rt receiver (world s))], Fflush]
       \<and> (invalid_handle (rt_load_ptr rt receiver (world s))
           \<or> rt_load_ptr rt receiver (world s) > 0x7fffffffffff)"
  by (simp add: objc_msgSend_wrapper_def prim_defs new_events_def invalid_handle_def
        split_def Let_def split: if_splits)

lemma wrapper_silent:
  "invalid_handle receiver \<or> selector = 0 \<Longrightarrow> objc_msgSend_wrapper rt receiver selector s = (0, s)"
  by (auto simp add: objc_msgSend_wrapper_def invalid_handle_def)

text \<open>
  Claim C4 does not hold of the code: not every rejection path prints. Called with a
  \<open>NULL\<close> receiver, with a misaligned receiver or with a \<open>NULL\<close> selector,
  \<open>objc_msgSend_wrapper\<close> returns \<open>NULL\<close> and leaves the trace empty: nothing is printed
  and nothing is flushed. On the same receivers its sibling \<open>objc_msgSend_wrapper_1_uint\<close>
  prints the line with its tag and the offending pointer.
\<close>

theorem wrapper_rejects_silently:
  "objc_msgSend_wrapper reference_runtime 0 0x3000 (start initial_world) = (0, start initial_world)
   \<and> objc_msgSend_wrapper reference_runtime 0x2001 0x3000 (start initial_world) = (0, start initial_world)
   \<and> objc_msgSend_wrapper reference_runtime 0x2000 0 (start initial_world) = (0, start initial_world)
   \<and> trace (start initial_world) = []
   \<and> objc_msgSend_wrapper_1_uint reference_runtime 0 0x3000 5 (start initial_world)
      = (0, \<lparr>world = initial_world,
             trace = [Fprintf ''[objc_msgSend_wrapper_1_uint] NULL receiver'' [], Fflush]\<rparr>)
   \<and> objc_msgSend_wrapper_1_uint reference_runtime 0x2001 0x3000 5 (start initial_world)
      = (0, \<lparr>world = initial_world,
             trace = [Fprintf ''[objc_msgSend_wrapper_1_uint] Invalid receiver: %p'' [PtrArg 0x2001],
                      Fflush]\<rparr>)"
  by (simp add: objc_msgSend_wrapper_def objc_msgSend_wrapper_1_uint_def diag_def start_def)

section \<open>Callbacks: properties\<close>















lemma small_button_cast:
  fixes x :: "64 word"
  assumes "0 \<le> sint x" "sint x \<le> 2"
  shows "uint (ucast x :: 32 word) = sint x"
proof -
  have "sint x = 0 \<or> sint x = 1 \<or> sint x = 2" using assms by arith
  moreover have "x = word_of_int (sint x)" by simp
  ultimately have "x = 0 \<or> x = 1 \<or> x = 2"
    by (metis word_of_int_0 word_of_int_1 word_of_int_numeral)
  then show ?thesis by auto
qed

lemma normalized_button_other: "button_num <s 0 \<or> 2 <s button_num \<Longrightarrow> normalized_button button_num 3"
  by (auto simp add: normalized_button_def word_sless_alt)

lemma normalized_button_same:
  "\<not> button_num <s 0 \<Longrightarrow> \<not> 2 <s button_num \<Longrightarrow> normalized_button button_num (ucast button_num)"
  using small_button_cast [of button_num]
  by (auto simp add: normalized_button_def word_sless_alt)

lemma mouseDown_events:
  assumes "self \<noteq> 0" "event \<noteq> 0" "fst (rt_getAssociatedObject rt self ''windowPtr'' (world s)) \<noteq> 0"
  shows "ens (Pair ()) (\<lambda>u es. \<not> list_ex is_failed_selector es \<longrightarrow>
    (\<exists>locationSel location buttonNumberSel button_num button modifierFlagsSel modifiers.
      es = [GetAssociatedObject self ''windowPtr'' (fst (rt_getAssociatedObject rt self ''windowPtr'' (world s))),
        SelRegisterName ''locationInWindow'' locationSel,
        MsgSend event locationSel [] (RPoint location),
        SelRegisterName ''buttonNumber'' buttonNumberSel,
        MsgSend event buttonNumberSel [] (RLong button_num),
        SelRegisterName ''modifierFlags'' modifierFlagsSel,
        MsgSend event modifierFlagsSel [] (RULong modifiers),
        RouteMouseEvent (fst (rt_getAssociatedObject rt self ''windowPtr'' (world s))) 0 button
          (point_x location) (point_y location) (ucast modifiers)]
     \<and> normalized_button button_num button))
    s (tahoeViewMouseDownImpl rt self cmd event s)"
  unfolding tahoeViewMouseDownImpl_def Let_def
  using assms
  by (intro ens_callback_steps; simp add: normalized_button_other normalized_button_same)

lemma mouseUp_events:
  assumes "self \<noteq> 0" "event \<noteq> 0" "fst (rt_getAssociatedObject rt self ''windowPtr'' (world s)) \<noteq> 0"
  shows "ens (Pair ()) (\<lambda>u es. \<not> list_ex is_failed_selector es \<longrightarrow>
    (\<exists>locationSel location buttonNumberSel button_num button modifierFlagsSel modifiers.
      es = [GetAssociatedObject self ''windowPtr'' (fst (rt_getAssociatedObject rt self ''windowPtr'' (world s))),
        SelRegisterName ''locationInWindow'' locationSel,
        MsgSend event locationSel [] (RPoint location),
        SelRegisterName ''buttonNumber'' buttonNumberSel,
        MsgSend event buttonNumberSel [] (RLong button_num),
        SelRegisterName ''modifierFlags'' modifierFlagsSel,
        MsgSend event modifierFlagsSel [] (RULong modifiers),
        RouteMouseEvent (fst (rt_getAssociatedObject rt self ''windowPtr'' (world s))) 1 button
          (point_x location) (point_y location) (ucast modifiers)]
     \<and> normalized_button button_num button))
    s (tahoeViewMouseUpImpl rt self cmd event s)"
  unfolding tahoeViewMouseUpImpl_def Let_def
  using assms
  by (intro ens_callback_steps; simp add: normalized_button_other normalized_button_same)

lemma mouseDragged_events:
  assumes "self \<noteq> 0" "event \<noteq> 0" "fst (rt_getAssociatedObject rt self ''windowPtr'' (world s)) \<noteq> 0"
  shows "ens (Pair ()) (\<lambda>u es. \<not> list_ex is_failed_selector es \<longrightarrow>
    (\<exists>locationSel location buttonNumberSel button_num button modifierFlagsSel modifiers.
      es = [GetAssociatedObject self ''windowPtr'' (fst (rt_getAssociatedObject rt self ''windowPtr'' (world s))),
        SelRegisterName ''locationInWindow'' locationSel,
        MsgSend event locationSel [] (RPoint location),
        SelRegisterName ''buttonNumber'' buttonNumberSel,
        MsgSend event buttonNumberSel [] (RLong button_num),
        SelRegisterName ''modifierFlags'' modifierFlagsSel,
        MsgSend event modifierFlagsSel [] (RULong modifiers),
        RouteMouseEvent (fst (rt_getAssociatedObject rt self ''windowPtr'' (world s))) 3 button
          (point_x location) (point_y location) (ucast modifiers)]
     \<and> normalized_button button_num button))
    s (tahoeViewMouseDraggedImpl rt self cmd event s)"
  unfolding tahoeViewMouseDraggedImpl_def Let_def
  using assms
  by (intro ens_callback_steps; simp add: normalized_button_other normalized_button_same)

lemma mouseMoved_events:
  assumes "self \<noteq> 0" "event \<noteq> 0" "fst (rt_getAssociatedObject rt self ''windowPtr'' (world s)) \<noteq> 0"
  shows "ens (Pair ()) (\<lambda>u es. \<not> list_ex is_failed_selector es \<longrightarrow>
    (\<exists>locationSel location modifierFlagsSel modifiers.
      es = [GetAssociatedObject self ''windowPtr'' (fst (rt_getAssociatedObject rt self ''windowPtr'' (world s))),
        SelRegisterName ''locationInWindow'' locationSel,
        MsgSend event locationSel [] (RPoint location),
        SelRegisterName ''modifierFlags'' modifierFlagsSel,
        MsgSend event modifierFlagsSel [] (RULong modifiers),
        RouteMouseEvent (fst (rt_getAssociatedObject rt self ''windowPtr'' (world s))) 2 0
          (point_x location) (point_y location) (ucast modifiers)]))
    s (tahoeViewMouseMovedImpl rt self cmd event s)"
  unfolding tahoeViewMouseMovedImpl_def Let_def
  using assms
  by (intro ens_callback_steps; simp)

text \<open>
  Claim C8. With non-null \<open>self\<close> and event, a non-zero stored token and no selector
  lookup failing, each pointer callback makes exactly one router call, the last thing it
  does: press with kind 0, release with kind 1, drag with kind 3, each with the button
  ordinal the event reported, normalized (an ordinal outside {0, 1, 2} becomes 3); move
  with kind 2 and button 0. The call passes the stored token, the event's location and
  the low 32 bits of its modifier flags.
\<close>

theorem pointer_event_kinds:
  assumes "self \<noteq> 0" "event \<noteq> 0"
    and "fst (rt_getAssociatedObject rt self ''windowPtr'' (world s)) = token" "token \<noteq> 0"
  shows "(\<not> list_ex is_failed_selector (new_events s (tahoeViewMouseDownImpl rt self cmd event s)) \<longrightarrow>
     (\<exists>locationSel location buttonNumberSel button_num button modifierFlagsSel modifiers.
       new_events s (tahoeViewMouseDownImpl rt self cmd event s) =
         [GetAssociatedObject self ''windowPtr'' token,
          SelRegisterName ''locationInWindow'' locationSel,
          MsgSend event locationSel [] (RPoint location),
          SelRegisterName ''buttonNumber'' buttonNumberSel,
          MsgSend event buttonNumberSel [] (RLong button_num),
          SelRegisterName ''modifierFlags'' modifierFlagsSel,
          MsgSend event modifierFlagsSel [] (RULong modifiers),
          RouteMouseEvent token 0 button (point_x location) (point_y location) (ucast modifiers)]
       \<and> normalized_button button_num button))
   \<and> (\<not> list_ex is_failed_selector (new_events s (tahoeViewMouseUpImpl rt self cmd event s)) \<longrightarrow>
     (\<exists>locationSel location buttonNumberSel button_num button modifierFlagsSel modifiers.
       new_events s (tahoeViewMouseUpImpl rt self cmd event s) =
         [GetAssociatedObject self ''windowPtr'' token,
          SelRegisterName ''locationInWindow'' locationSel,
          MsgSend event locationSel [] (RPoint location),
          SelRegisterName ''buttonNumber'' buttonNumberSel,
          MsgSend event buttonNumberSel [] (RLong button_num),
          SelRegisterName ''modifierFlags'' modifierFlagsSel,
          MsgSend event modifierFlagsSel [] (RULong modifiers),
          RouteMouseEvent token 1 button (point_x location) (point_y location) (ucast modifiers)]
       \<and> normalized_button button_num button))
   \<and> (\<not> list_ex is_failed_selector (new_events s (tahoeViewMouseDraggedImpl rt self cmd event s)) \<longrightarrow>
     (\<exists>locationSel location buttonNumberSel button_num button modifierFlagsSel modifiers.
       new_events s (tahoeViewMouseDraggedImpl rt self cmd event s) =
         [GetAssociatedObject self ''windowPtr'' token,
          SelRegisterName ''locationInWindow'' locationSel,
          MsgSend event locationSel [] (RPoint location),
          SelRegisterName ''buttonNumber'' buttonNumberSel,
          MsgSend event buttonNumberSel [] (RLong button_num),
          SelRegisterName ''modifierFlags'' modifierFlagsSel,
          MsgSend event modifierFlagsSel [] (RULong modifiers),
          RouteMouseEvent token 3 button (point_x location) (point_y location) (ucast modifiers)]
       \<and> normalized_button button_num button))
   \<and> (\<not> list_ex is_failed_selector (new_events s (tahoeViewMouseMovedImpl rt self cmd event s)) \<longrightarrow>
     (\<exists>locationSel location modifierFlagsSel modifiers.
       new_events s (tahoeViewMouseMovedImpl rt self cmd event s) =
         [GetAssociatedObject self ''windowPtr'' token,
          SelRegisterName ''locationInWindow'' locationSel,
          MsgSend event locationSel [] (RPoint location),
          SelRegisterName ''modifierFlags'' modifierFlagsSel,
          MsgSend event modifierFlagsSel [] (RULong modifiers),
          RouteMouseEvent token 2 0 (point_x location) (point_y location) (ucast modifiers)]))"
proof -
  have t: "fst (rt_getAssociatedObject rt self ''windowPtr'' (world s)) \<noteq> 0"
    using assms by simp
  show ?thesis
    using ens_void [OF mouseDown_events [OF assms(1,2) t, of cmd]]
      ens_void [OF mouseUp_events [OF assms(1,2) t, of cmd]]
      ens_void [OF mouseDragged_events [OF assms(1,2) t, of cmd]]
      ens_void [OF mouseMoved_events [OF assms(1,2) t, of cmd]]
    unfolding assms(3)
    by (intro conjI) assumption+
qed

theorem pointer_event_kinds_witness:
  "fst (rt_getAssociatedObject reference_runtime 0x2000 ''windowPtr'' event_world) = 42
   \<and> trace (tahoeViewMouseDownImpl reference_runtime 0x2000 0x2100 0x2200 (start event_world))
     = [GetAssociatedObject 0x2000 ''windowPtr'' 42,
        SelRegisterName ''locationInWindow'' 0x100000,
        MsgSend 0x2200 0x100000 [] (RPoint \<lparr>point_x = Finite 10, point_y = Finite 20\<rparr>),
        SelRegisterName ''buttonNumber'' 0x100010,
        MsgSend 0x2200 0x100010 [] (RLong 5),
        SelRegisterName ''modifierFlags'' 0x100020,
        MsgSend 0x2200 0x100020 [] (RULong 0x100),
        RouteMouseEvent 42 0 3 (Finite 10) (Finite 20) 0x100]
   \<and> last (trace (tahoeViewMouseUpImpl reference_runtime 0x2000 0x2100 0x2200 (start event_world)))
     = RouteMouseEvent 42 1 3 (Finite 10) (Finite 20) 0x100
   \<and> last (trace (tahoeViewMouseDraggedImpl reference_runtime 0x2000 0x2100 0x2200
        (start (event_world\<lparr>w_button := 1\<rparr>))))
     = RouteMouseEvent 42 3 1 (Finite 10) (Finite 20) 0x100
   \<and> last (trace (tahoeViewMouseMovedImpl reference_runtime 0x2000 0x2100 0x2200 (start event_world)))
     = RouteMouseEvent 42 2 0 (Finite 10) (Finite 20) 0x100"
  using pointer_event_kinds [of "0x2000" "0x2200" reference_runtime "start event_world" 42 "0x2100"]
    pointer_event_kinds [of "0x2000" "0x2200" reference_runtime "start (event_world\<lparr>w_button := 1\<rparr>)" 42 "0x2100"]
  by (simp add: callback_defs eval_defs event_world_def word_sless_alt)

lemma resize_events:
  assumes "self \<noteq> 0" "notification \<noteq> 0" "fst (rt_getAssociatedObject rt self ''windowPtr'' (world s)) \<noteq> 0"
  shows "ens (Pair ()) (\<lambda>u es. \<not> list_ex is_null_result es \<longrightarrow>
    (\<exists>objectSel ns_window frameSel frame contentViewSel content_view content_frame.
      es = [GetAssociatedObject self ''windowPtr'' (fst (rt_getAssociatedObject rt self ''windowPtr'' (world s))),
        SelRegisterName ''object'' objectSel,
        MsgSend notification objectSel [] (RId ns_window),
        SelRegisterName ''frame'' frameSel,
        MsgSend ns_window frameSel [] (RRect frame),
        SelRegisterName ''contentView'' contentViewSel,
        MsgSend ns_window contentViewSel [] (RId content_view),
        MsgSend content_view frameSel [] (RRect content_frame),
        RouteWindowDidResize (fst (rt_getAssociatedObject rt self ''windowPtr'' (world s)))
          (size_width content_frame) (size_height content_frame)]))
    s (windowDidResizeImpl rt self cmd notification s)"
  unfolding windowDidResizeImpl_def Let_def
  using assms
  by (intro ens_callback_steps; simp)

text \<open>
  Claim C9. With non-null \<open>self\<close> and notification, a non-zero stored token and no
  runtime call of the callback returning \<open>NULL\<close>, the resize callback makes exactly one
  router call, \<open>routeWindowDidResize\<close> with the token and the width and height of the
  frame of the window's content view (the window's own frame is read and not used). In
  the witness the content view's frame is 800 by 600 and the window's 800 by 628.
\<close>

theorem resize_routes_content_size:
  assumes "self \<noteq> 0" "notification \<noteq> 0"
    and "fst (rt_getAssociatedObject rt self ''windowPtr'' (world s)) = token" "token \<noteq> 0"
    and "\<not> list_ex is_null_result (new_events s (windowDidResizeImpl rt self cmd notification s))"
  shows "\<exists>objectSel ns_window frameSel frame contentViewSel content_view content_frame.
     new_events s (windowDidResizeImpl rt self cmd notification s) =
       [GetAssociatedObject self ''windowPtr'' token,
        SelRegisterName ''object'' objectSel,
        MsgSend notification objectSel [] (RId ns_window),
        SelRegisterName ''frame'' frameSel,
        MsgSend ns_window frameSel [] (RRect frame),
        SelRegisterName ''contentView'' contentViewSel,
        MsgSend ns_window contentViewSel [] (RId content_view),
        MsgSend content_view frameSel [] (RRect content_frame),
        RouteWindowDidResize token (size_width content_frame) (size_height content_frame)]"
proof -
  have t: "fst (rt_getAssociatedObject rt self ''windowPtr'' (world s)) \<noteq> 0"
    using assms by simp
  show ?thesis
    using ens_void [OF resize_events [OF assms(1,2) t, of cmd]] assms(5)
    unfolding assms(3)
    by blast
qed

theorem resize_routes_content_size_witness:
  "fst (rt_getAssociatedObject reference_runtime 0x2000 ''windowPtr'' event_world) = 42
   \<and> trace (windowDidResizeImpl reference_runtime 0x2000 0x2100 0x2200 (start event_world))
     = [GetAssociatedObject 0x2000 ''windowPtr'' 42,
        SelRegisterName ''object'' 0x100000,
        MsgSend 0x2200 0x100000 [] (RId 0x100010),
        SelRegisterName ''frame'' 0x100020,
        MsgSend 0x100010 0x100020 []
          (RRect \<lparr>origin_x = Finite 100, origin_y = Finite 100,
                   size_width = Finite 800, size_height = Finite 628\<rparr>),
        SelRegisterName ''contentView'' 0x100030,
        MsgSend 0x100010 0x100030 [] (RId 0x100040),
        MsgSend 0x100040 0x100020 []
          (RRect \<lparr>origin_x = Finite 0, origin_y = Finite 0,
                   size_width = Finite 800, size_height = Finite 600\<rparr>),
        RouteWindowDidResize 42 (Finite 800) (Finite 600)]"
  using resize_routes_content_size [of "0x2000" "0x2200" reference_runtime "start event_world" 42 "0x2100"]
  by (simp add: callback_defs eval_defs event_world_def)

section \<open>Dynamic type synthesis: properties\<close>

lemma delegate_newClass_installs:
  "ens (\<lambda>x. x) (\<lambda>r es. (list_ex is_failed_selector es \<or> list_ex is_failed_addMethod es \<longrightarrow> r = None)
        \<and> (r = None \<longrightarrow> ends_with_diag ''[createWindowDelegate]'' es))
     s (createWindowDelegate_newClass rt s)"
  unfolding createWindowDelegate_newClass_def
  by (intro ens_steps; simp add: tagged_def)

lemma delegate_instance_installs:
  "ens (\<lambda>x. x) (\<lambda>r es. (list_ex is_failed_selector es \<or> list_ex is_failed_addMethod es \<longrightarrow>
          r = 0 \<and> ends_with_diag ''[createWindowDelegate]'' es))
     s (createWindowDelegate_instance rt w c s)"
  unfolding createWindowDelegate_instance_def
  by (intro ens_steps; simp add: tagged_def)

lemma delegate_installs:
  "ens (\<lambda>x. x) (\<lambda>r es. (list_ex is_failed_selector es \<or> list_ex is_failed_addMethod es \<longrightarrow>
          r = 0 \<and> ends_with_diag ''[createWindowDelegate]'' es))
     s (createWindowDelegate rt w s)"
  unfolding createWindowDelegate_def
  by (intro ens_steps ens_call [OF delegate_newClass_installs] ens_option
        ens_weaken [OF delegate_instance_installs])
     (auto simp add: tagged_def intro: ends_with_diag_Cons ends_with_diag_append)

lemma view_newClass_installs:
  "ens (\<lambda>x. x) (\<lambda>r es. (list_ex is_failed_selector es \<or> list_ex is_failed_addMethod es \<longrightarrow> r = None)
        \<and> (r = None \<longrightarrow> ends_with_diag ''[createTahoeView]'' es))
     s (createTahoeView_newClass rt s)"
  unfolding createTahoeView_newClass_def
  by (intro ens_steps; simp add: tagged_def)

lemma view_instance_installs:
  "ens (\<lambda>x. x) (\<lambda>r es. (list_ex is_failed_selector es \<or> list_ex is_failed_addMethod es \<longrightarrow>
          r = 0 \<and> ends_with_diag ''[createTahoeView]'' es))
     s (createTahoeView_instance rt w c s)"
  unfolding createTahoeView_instance_def
  by (intro ens_steps; simp add: tagged_def)

lemma view_installs:
  "ens (\<lambda>x. x) (\<lambda>r es. (list_ex is_failed_selector es \<or> list_ex is_failed_addMethod es \<longrightarrow>
          r = 0 \<and> ends_with_diag ''[createTahoeView]'' es))
     s (createTahoeView rt w s)"
  unfolding createTahoeView_def
  by (intro ens_steps ens_call [OF view_newClass_installs] ens_option
        ens_weaken [OF view_instance_installs])
     (auto simp add: tagged_def intro: ends_with_diag_Cons ends_with_diag_append)

lemma timer_newClass_installs:
  "ens (\<lambda>x. x) (\<lambda>r es. \<not> list_ex is_failed_selector es \<and> \<not> list_ex is_AddMethod es
        \<and> (r = None \<longrightarrow> ends_with_diag ''[createAnimationTimer]'' es))
     s (createAnimationTimer_newClass rt s)"
  unfolding createAnimationTimer_newClass_def
  by (intro ens_steps; simp add: tagged_def)

lemma timer_instance_installs:
  "ens (\<lambda>x. x) (\<lambda>r es. (list_ex is_failed_selector es \<longrightarrow>
          r = 0 \<and> ends_with_diag ''[createAnimationTimer]'' es) \<and> failed_adds_reported es)
     s (createAnimationTimer_instance rt w i c s)"
  unfolding createAnimationTimer_instance_def
  by (intro ens_steps; simp add: tagged_def)

lemma timer_installs:
  "ens (\<lambda>x. x) (\<lambda>r es. (list_ex is_failed_selector es \<longrightarrow>
          r = 0 \<and> ends_with_diag ''[createAnimationTimer]'' es) \<and> failed_adds_reported es)
     s (createAnimationTimer rt w i s)"
  unfolding createAnimationTimer_def
  by (intro ens_steps ens_call [OF timer_newClass_installs] ens_option
        ens_weaken [OF timer_instance_installs])
     (auto simp add: tagged_def failed_adds_reported_append failed_adds_reported_none intro: ends_with_diag_Cons ends_with_diag_append)

text \<open>
  Claim C5 as written fails for \<open>createAnimationTimer\<close>: it adds \<open>tahoeTimerTick:\<close> on
  every call, and when \<open>class_addMethod\<close> reports failure it prints a line and goes on
  (``Method might already exist, which is fine''). The second of two calls is such a call,
  and it returns a timer.
\<close>

theorem failed_install_ignored_counterexample:
  "list_ex is_failed_addMethod
     (new_events (snd (createAnimationTimer reference_runtime 7 (Finite (1/2)) (start initial_world)))
        (snd (createAnimationTimer reference_runtime 8 (Finite (1/4))
               (snd (createAnimationTimer reference_runtime 7 (Finite (1/2)) (start initial_world))))))
   \<and> fst (createAnimationTimer reference_runtime 8 (Finite (1/4))
               (snd (createAnimationTimer reference_runtime 7 (Finite (1/2)) (start initial_world))))
       \<noteq> 0"
  by (simp add: ctor_defs eval_defs new_events_def)

text \<open>
  Claim C5, amended. In \<open>createWindowDelegate\<close> and \<open>createTahoeView\<close>, a selector that
  does not resolve or a \<open>class_addMethod\<close> that reports failure makes the constructor
  return \<open>NULL\<close>, and the last thing it does is print and flush a line with its tag. In
  \<open>createAnimationTimer\<close> the same holds for a selector that does not resolve, while a
  failed \<open>class_addMethod\<close> is followed at once by a printed line and its flush, and the
  creation goes on.
\<close>

theorem install_failures_reported:
  "(list_ex is_failed_selector (new_events s (snd (createWindowDelegate rt window_ptr s)))
      \<or> list_ex is_failed_addMethod (new_events s (snd (createWindowDelegate rt window_ptr s))) \<longrightarrow>
        fst (createWindowDelegate rt window_ptr s) = 0
        \<and> ends_with_diag ''[createWindowDelegate]'' (new_events s (snd (createWindowDelegate rt window_ptr s))))
   \<and> (list_ex is_failed_selector (new_events s (snd (createTahoeView rt window_ptr s)))
      \<or> list_ex is_failed_addMethod (new_events s (snd (createTahoeView rt window_ptr s))) \<longrightarrow>
        fst (createTahoeView rt window_ptr s) = 0
        \<and> ends_with_diag ''[createTahoeView]'' (new_events s (snd (createTahoeView rt window_ptr s))))
   \<and> (list_ex is_failed_selector (new_events s (snd (createAnimationTimer rt window_ptr interval s))) \<longrightarrow>
        fst (createAnimationTimer rt window_ptr interval s) = 0
        \<and> ends_with_diag ''[createAnimationTimer]''
             (new_events s (snd (createAnimationTimer rt window_ptr interval s))))
   \<and> failed_adds_reported (new_events s (snd (createAnimationTimer rt window_ptr interval s)))"
  using ens_value [OF delegate_installs, of s rt window_ptr]
        ens_value [OF view_installs, of s rt window_ptr]
        ens_value [OF timer_installs, of s rt window_ptr interval]
  by blast

theorem install_failures_reported_witness:
  "list_ex is_failed_selector (trace (snd (createWindowDelegate no_selectors_runtime 7 (start initial_world))))
   \<and> fst (createWindowDelegate no_selectors_runtime 7 (start initial_world)) = 0
   \<and> list_ex is_failed_selector (trace (snd (createTahoeView no_selectors_runtime 7 (start initial_world))))
   \<and> fst (createTahoeView no_selectors_runtime 7 (start initial_world)) = 0
   \<and> list_ex is_failed_selector
        (trace (snd (createAnimationTimer no_selectors_runtime 7 (Finite (1/2)) (start initial_world))))
   \<and> createAnimationTimer no_selectors_runtime 7 (Finite (1/2)) (start initial_world)
      = (0, \<lparr>world = initial_world
                 \<lparr>w_classes := (''TahoeTimerTarget'', 0x100000) # w_classes initial_world,
                  w_pending := [(0x100000, ''TahoeTimerTarget'')],
                  w_next := 0x100010\<rparr>,
             trace = [GetClass ''TahoeTimerTarget'' 0, GetClass ''NSObject'' 0x10000,
                      AllocateClassPair 0x10000 ''TahoeTimerTarget'' 0x100000,
                      RegisterClassPair 0x100000,
                      Fprintf ''[createAnimationTimer] Created TahoeTimerTarget class'' [], Fflush,
                      SelRegisterName ''alloc'' 0,
                      Fprintf ''[createAnimationTimer] alloc selector not found'' [], Fflush]\<rparr>)"
  using install_failures_reported [of "start initial_world" no_selectors_runtime 7 "Finite (1/2)"]
  by (simp add: ctor_defs eval_defs no_selectors_runtime_def new_events_def)

lemma in_range_passes:
  "interval_in_range i \<Longrightarrow> \<not> d_le i (Finite 0) \<and> \<not> d_gt i (Finite 1)"
  by (cases i) (auto simp add: interval_in_range_def d_gt_def)

lemma out_of_range_caught:
  "i \<noteq> NaN \<Longrightarrow> \<not> interval_in_range i \<Longrightarrow> d_le i (Finite 0) \<or> d_gt i (Finite 1)"
  by (cases i) (auto simp add: interval_in_range_def d_gt_def)

text \<open>
  The interval test of \<open>createAnimationTimer\<close>. An interval that is a number or an
  infinity and lies outside (0, 1.0] is refused before any runtime call: the result is
  \<open>NULL\<close>, the runtime state is as it was, and the one line printed is the one for the
  null token when the token is 0, else the one with the interval.
\<close>

lemma timer_rejects_out_of_range:
  assumes "interval \<noteq> NaN" "\<not> interval_in_range interval"
  shows "fst (createAnimationTimer rt window_ptr interval s) = 0
      \<and> untouched s (snd (createAnimationTimer rt window_ptr interval s))
      \<and> new_events s (snd (createAnimationTimer rt window_ptr interval s)) =
          (if window_ptr = 0 then [Fprintf ''[createAnimationTimer] NULL window_ptr'' [], Fflush]
           else [Fprintf ''[createAnimationTimer] Invalid interval: %f (expected 0 < interval <= 1.0)''
                   [DoubleArg interval], Fflush])"
  using out_of_range_caught [OF assms]
  by (auto simp add: createAnimationTimer_def)

text \<open>
  With a non-zero token and an interval in the range the constructor returns an object
  exactly when none of the runtime calls after the first class lookup returned \<open>NULL\<close>,
  and a \<open>NULL\<close> result comes with a printed line as the last thing done.
\<close>

lemma timer_newClass_outcome:
  "ens (\<lambda>x. x) (\<lambda>r es. ((r = None) = list_ex is_null_result es)
        \<and> (r = None \<longrightarrow> ends_with_diag ''[createAnimationTimer]'' es))
     s (createAnimationTimer_newClass rt s)"
  unfolding createAnimationTimer_newClass_def
  by (intro ens_steps; simp add: tagged_def)

lemma timer_instance_outcome:
  "ens (\<lambda>x. x) (\<lambda>r es. ((r \<noteq> 0) = (\<not> list_ex is_null_result es))
        \<and> (r = 0 \<longrightarrow> ends_with_diag ''[createAnimationTimer]'' es))
     s (createAnimationTimer_instance rt w i c s)"
  unfolding createAnimationTimer_instance_def
  by (intro ens_steps; simp add: tagged_def)

lemma timer_outcome:
  assumes "w \<noteq> 0" "interval_in_range i"
  shows "ens (\<lambda>x. x) (\<lambda>r es. ((r \<noteq> 0) = (\<not> list_ex is_null_result (tl es)))
        \<and> (r = 0 \<longrightarrow> ends_with_diag ''[createAnimationTimer]'' es))
     s (createAnimationTimer rt w i s)"
  unfolding createAnimationTimer_def
  using assms in_range_passes [OF assms(2)]
  by (intro ens_steps ens_call [OF timer_newClass_outcome] ens_option
        ens_weaken [OF timer_instance_outcome])
     (auto simp add: tagged_def intro: ends_with_diag_Cons ends_with_diag_append)

text \<open>
  On the reference runtime every non-zero token and every interval in the range give the
  timer, created by the message that carries the interval, the target, the tick
  selector, the boxed token and \<open>YES\<close>.
\<close>

lemma timer_in_range_reference:
  assumes "window_ptr \<noteq> 0" "interval_in_range interval"
  shows "fst (createAnimationTimer reference_runtime window_ptr interval (start initial_world)) = 0x100090
     \<and> last (butlast (butlast (trace (snd (createAnimationTimer reference_runtime window_ptr interval (start initial_world))))))
        = MsgSend 0x10030 0x100080
            [ADouble interval, AId 0x100040, ASel 0x100070, AId 0x100060, ABool True] (RId 0x100090)"
  using assms in_range_passes [OF assms(2)]
  by (simp add: ctor_defs eval_defs)

text \<open>
  Claim C6 does not hold of the code: NaN lies outside (0, 1.0] and is not refused. The
  test is written \<open>interval <= 0.0 || interval > 1.0\<close>, and both comparisons are false
  for NaN, although the printed expectation \<open>0 < interval <= 1.0\<close> is false for it too.
  Called with token 7 and NaN the constructor registers the class \<open>TahoeTimerTarget\<close>,
  sends the message that schedules the timer with the interval NaN, and returns the
  timer.
\<close>

theorem createAnimationTimer_accepts_nan:
  "\<not> interval_in_range NaN
   \<and> fst (createAnimationTimer reference_runtime 7 NaN (start initial_world)) = 0x100090
   \<and> trace (snd (createAnimationTimer reference_runtime 7 NaN (start initial_world))) =
       [GetClass ''TahoeTimerTarget'' 0,
        GetClass ''NSObject'' 0x10000,
        AllocateClassPair 0x10000 ''TahoeTimerTarget'' 0x100000,
        RegisterClassPair 0x100000,
        Fprintf ''[createAnimationTimer] Created TahoeTimerTarget class'' [], Fflush,
        SelRegisterName ''alloc'' 0x100010,
        MsgSend 0x100000 0x100010 [] (RId 0x100020),
        SelRegisterName ''init'' 0x100030,
        MsgSend 0x100020 0x100030 [] (RId 0x100040),
        SetAssociatedObject 0x100040 ''windowPtr'' 7,
        GetClass ''NSNumber'' 0x10020,
        SelRegisterName ''numberWithUnsignedLongLong:'' 0x100050,
        MsgSend 0x10020 0x100050 [AULong 7] (RId 0x100060),
        SelRegisterName ''tahoeTimerTick:'' 0x100070,
        AddMethod 0x100000 0x100070 TahoeTimerTickImpl ''v@:@'' True,
        Fprintf ''[createAnimationTimer] Added tahoeTimerTick: method to TahoeTimerTarget class'' [], Fflush,
        SelRegisterName ''scheduledTimerWithTimeInterval:target:selector:userInfo:repeats:'' 0x100080,
        GetClass ''NSTimer'' 0x10030,
        MsgSend 0x10030 0x100080
          [ADouble NaN, AId 0x100040, ASel 0x100070, AId 0x100060, ABool True] (RId 0x100090),
        Fprintf ''[createAnimationTimer] Created NSTimer successfully at: %p'' [PtrArg 0x100090], Fflush]"
  by (simp add: ctor_defs eval_defs interval_in_range_def)

lemma delegate_newClass_registers:
  "ens (\<lambda>x. x) (\<lambda>r es. r \<noteq> None \<longrightarrow> length (filter is_RegisterClassPair es) = 1)
     s (createWindowDelegate_newClass rt s)"
  unfolding createWindowDelegate_newClass_def
  by (intro ens_steps; simp)

lemma delegate_instance_registers:
  "ens (\<lambda>x. x) (\<lambda>r es. no_synthesis_step es) s (createWindowDelegate_instance rt w c s)"
  unfolding createWindowDelegate_instance_def
  by (intro ens_steps; simp add: no_synthesis_step_def)

lemma delegate_registers:
  "ens (\<lambda>x. x) (\<lambda>r es.
        (fst (rt_getClass rt ''TahoeWindowDelegate'' (world s)) \<noteq> 0 \<longrightarrow> no_synthesis_step es)
      \<and> (fst (rt_getClass rt ''TahoeWindowDelegate'' (world s)) = 0 \<and> r \<noteq> 0 \<longrightarrow>
           length (filter is_RegisterClassPair es) = 1))
     s (createWindowDelegate rt w s)"
  unfolding createWindowDelegate_def
  by (intro ens_steps_world ens_call [OF delegate_newClass_registers] ens_option
        ens_weaken [OF delegate_instance_registers])
     (auto simp add: no_synthesis_step_def list_ex_iff filter_empty_conv)

lemma view_newClass_registers:
  "ens (\<lambda>x. x) (\<lambda>r es. r \<noteq> None \<longrightarrow> length (filter is_RegisterClassPair es) = 1)
     s (createTahoeView_newClass rt s)"
  unfolding createTahoeView_newClass_def
  by (intro ens_steps; simp)

lemma view_instance_registers:
  "ens (\<lambda>x. x) (\<lambda>r es. no_synthesis_step es) s (createTahoeView_instance rt w c s)"
  unfolding createTahoeView_instance_def
  by (intro ens_steps; simp add: no_synthesis_step_def)

lemma view_registers:
  "ens (\<lambda>x. x) (\<lambda>r es.
        (fst (rt_getClass rt ''TahoeView'' (world s)) \<noteq> 0 \<longrightarrow> no_synthesis_step es)
      \<and> (fst (rt_getClass rt ''TahoeView'' (world s)) = 0 \<and> r \<noteq> 0 \<longrightarrow>
           length (filter is_RegisterClassPair es) = 1))
     s (createTahoeView rt w s)"
  unfolding createTahoeView_def
  by (intro ens_steps_world ens_call [OF view_newClass_registers] ens_option
        ens_weaken [OF view_instance_registers])
     (auto simp add: no_synthesis_step_def list_ex_iff filter_empty_conv)

lemma timer_newClass_registers:
  "ens (\<lambda>x. x) (\<lambda>r es. r \<noteq> None \<longrightarrow> length (filter is_RegisterClassPair es) = 1)
     s (createAnimationTimer_newClass rt s)"
  unfolding createAnimationTimer_newClass_def
  by (intro ens_steps; simp)

lemma timer_instance_registers:
  "ens (\<lambda>x. x) (\<lambda>r es. no_class_step es) s (createAnimationTimer_instance rt w i c s)"
  unfolding createAnimationTimer_instance_def
  by (intro ens_steps; simp add: no_class_step_def)

lemma timer_registers:
  "ens (\<lambda>x. x) (\<lambda>r es.
        (fst (rt_getClass rt ''TahoeTimerTarget'' (world s)) \<noteq> 0 \<longrightarrow> no_class_step es)
      \<and> (fst (rt_getClass rt ''TahoeTimerTarget'' (world s)) = 0 \<and> r \<noteq> 0 \<longrightarrow>
           length (filter is_RegisterClassPair es) = 1))
     s (createAnimationTimer rt w i s)"
  unfolding createAnimationTimer_def
  by (intro ens_steps_world ens_call [OF timer_newClass_registers] ens_option
        ens_weaken [OF timer_instance_registers])
     (auto simp add: no_class_step_def list_ex_iff filter_empty_conv)

lemma twice:
  assumes first: "\<exists>es. trace s1 = trace s @ es \<and> (A \<longrightarrow> length (filter is_RegisterClassPair es) = 1)"
      and second: "\<exists>es. trace s2 = trace s1 @ es \<and> (B \<longrightarrow> Q es)"
      and Q: "\<And>es. Q es \<Longrightarrow> \<not> list_ex is_RegisterClassPair es"
      and "A" "B"
  shows "length (filter is_RegisterClassPair (new_events s s2)) = 1 \<and> Q (new_events s1 s2)"
proof -
  from first \<open>A\<close> obtain es1 where 1: "trace s1 = trace s @ es1" "length (filter is_RegisterClassPair es1) = 1"
    by blast
  from second \<open>B\<close> obtain es2 where 2: "trace s2 = trace s1 @ es2" "Q es2"
    by blast
  from Q [OF 2(2)] have "filter is_RegisterClassPair es2 = []"
    by (simp add: list_ex_iff filter_empty_conv)
  with 1 2 show ?thesis
    by simp
qed

text \<open>
  Claim C3 as written fails for the timer target: the second call of
  \<open>createAnimationTimer\<close> does more than a lookup, it calls \<open>class_addMethod\<close> again.
\<close>

theorem synthesis_second_call_counterexample:
  "list_ex is_AddMethod
     (new_events (snd (createAnimationTimer reference_runtime 7 (Finite (1/2)) (start initial_world)))
        (snd (createAnimationTimer reference_runtime 7 (Finite (1/2))
               (snd (createAnimationTimer reference_runtime 7 (Finite (1/2)) (start initial_world))))))"
  by (simp add: ctor_defs eval_defs new_events_def)

text \<open>
  After a constructor that found no class and returned an object, the runtime resolves
  the name: the class the constructor allocated under that name and registered.
\<close>

lemma delegate_newClass_world:
  assumes "registry_contract rt ''TahoeWindowDelegate''"
  shows "ensw (\<lambda>w. True) (\<lambda>x. x) (\<lambda>r w. \<forall>c. r = Some c \<longrightarrow> resolves rt ''TahoeWindowDelegate'' c w)
     s (createWindowDelegate_newClass rt s)"
  unfolding createWindowDelegate_newClass_def
  by (intro ensw_steps; (rule assms contract_pending [OF assms] contract_resolves [OF assms] preserves_True)?; simp)

lemma delegate_instance_world:
  assumes "registry_contract rt ''TahoeWindowDelegate''"
  shows "ensw (resolves rt ''TahoeWindowDelegate'' cls) (\<lambda>x. x)
     (\<lambda>r w. resolves rt ''TahoeWindowDelegate'' cls w) s (createWindowDelegate_instance rt win cls s)"
  unfolding createWindowDelegate_instance_def
  by (intro ensw_steps; (rule assms contract_pending [OF assms] contract_resolves [OF assms] preserves_True)?; simp)

lemma delegate_world:
  assumes "registry_contract rt ''TahoeWindowDelegate''"
  shows "ensw (\<lambda>w. fst (rt_getClass rt ''TahoeWindowDelegate'' w) = 0) (\<lambda>x. x)
     (\<lambda>r w. r \<noteq> 0 \<longrightarrow> fst (rt_getClass rt ''TahoeWindowDelegate'' w) \<noteq> 0)
     s (createWindowDelegate rt win s)"
  unfolding createWindowDelegate_def
  by (intro ensw_if ensw_return_diag ensw_return ensw_lookup_failed
        ensw_call [OF delegate_newClass_world [OF assms]] ensw_option
        ensw_conseq [OF delegate_instance_world [OF assms]])
     (auto simp add: resolves_def)


lemma view_newClass_world:
  assumes "registry_contract rt ''TahoeView''"
  shows "ensw (\<lambda>w. True) (\<lambda>x. x) (\<lambda>r w. \<forall>c. r = Some c \<longrightarrow> resolves rt ''TahoeView'' c w)
     s (createTahoeView_newClass rt s)"
  unfolding createTahoeView_newClass_def
  by (intro ensw_steps; (rule assms contract_pending [OF assms] contract_resolves [OF assms] preserves_True)?; simp)

lemma view_instance_world:
  assumes "registry_contract rt ''TahoeView''"
  shows "ensw (resolves rt ''TahoeView'' cls) (\<lambda>x. x)
     (\<lambda>r w. resolves rt ''TahoeView'' cls w) s (createTahoeView_instance rt win cls s)"
  unfolding createTahoeView_instance_def
  by (intro ensw_steps; (rule assms contract_pending [OF assms] contract_resolves [OF assms] preserves_True)?; simp)

lemma view_world:
  assumes "registry_contract rt ''TahoeView''"
  shows "ensw (\<lambda>w. fst (rt_getClass rt ''TahoeView'' w) = 0) (\<lambda>x. x)
     (\<lambda>r w. r \<noteq> 0 \<longrightarrow> fst (rt_getClass rt ''TahoeView'' w) \<noteq> 0)
     s (createTahoeView rt win s)"
  unfolding createTahoeView_def
  by (intro ensw_if ensw_return_diag ensw_return ensw_lookup_failed
        ensw_call [OF view_newClass_world [OF assms]] ensw_option
        ensw_conseq [OF view_instance_world [OF assms]])
     (auto simp add: resolves_def)

lemma timer_newClass_world:
  assumes "registry_contract rt ''TahoeTimerTarget''"
  shows "ensw (\<lambda>w. True) (\<lambda>x. x) (\<lambda>r w. \<forall>c. r = Some c \<longrightarrow> resolves rt ''TahoeTimerTarget'' c w)
     s (createAnimationTimer_newClass rt s)"
  unfolding createAnimationTimer_newClass_def
  by (intro ensw_steps; (rule assms contract_pending [OF assms] contract_resolves [OF assms] preserves_True)?; simp)

lemma timer_instance_world:
  assumes "registry_contract rt ''TahoeTimerTarget''"
  shows "ensw (resolves rt ''TahoeTimerTarget'' cls) (\<lambda>x. x)
     (\<lambda>r w. resolves rt ''TahoeTimerTarget'' cls w) s (createAnimationTimer_instance rt win i cls s)"
  unfolding createAnimationTimer_instance_def
  by (intro ensw_steps; (rule assms contract_pending [OF assms] contract_resolves [OF assms] preserves_True)?; simp)

lemma timer_world:
  assumes "registry_contract rt ''TahoeTimerTarget''"
  shows "ensw (\<lambda>w. fst (rt_getClass rt ''TahoeTimerTarget'' w) = 0) (\<lambda>x. x)
     (\<lambda>r w. r \<noteq> 0 \<longrightarrow> fst (rt_getClass rt ''TahoeTimerTarget'' w) \<noteq> 0)
     s (createAnimationTimer rt win i s)"
  unfolding createAnimationTimer_def
  by (intro ensw_if ensw_return_diag ensw_return ensw_lookup_failed
        ensw_call [OF timer_newClass_world [OF assms]] ensw_option
        ensw_conseq [OF timer_instance_world [OF assms]])
     (auto simp add: resolves_def)

lemma ensw_world:
  "ensw I (\<lambda>x. x) Q s x \<Longrightarrow> I (world s) \<Longrightarrow> Q (fst x) (world (snd x))"
  by (simp add: ensw_def)

text \<open>
  Claim C3, amended. Take a runtime whose class registry keeps its contract for the name
  of the class: a class allocated under the name is found under it once it is
  registered, and the other runtime calls do not undo that. Take two calls of the same
  constructor, one after the other. If the class was not known to the runtime before the
  first call and the first call returned an object, then the second call finds the
  class, the two calls together registered exactly one class, and the second call
  allocated and registered no class. For the window delegate and the input view the
  second call added no method either; the timer constructor adds its method on every
  call.
\<close>

theorem synthesis_twice:
  "(registry_contract rt ''TahoeWindowDelegate''
      \<and> fst (rt_getClass rt ''TahoeWindowDelegate'' (world s)) = 0
      \<and> fst (createWindowDelegate rt w1 s) \<noteq> 0 \<longrightarrow>
        fst (rt_getClass rt ''TahoeWindowDelegate'' (world (snd (createWindowDelegate rt w1 s)))) \<noteq> 0
        \<and> length (filter is_RegisterClassPair
          (new_events s (snd (createWindowDelegate rt w2 (snd (createWindowDelegate rt w1 s)))))) = 1
        \<and> no_synthesis_step (new_events (snd (createWindowDelegate rt w1 s))
              (snd (createWindowDelegate rt w2 (snd (createWindowDelegate rt w1 s))))))
   \<and> (registry_contract rt ''TahoeView''
      \<and> fst (rt_getClass rt ''TahoeView'' (world s)) = 0
      \<and> fst (createTahoeView rt w1 s) \<noteq> 0 \<longrightarrow>
        fst (rt_getClass rt ''TahoeView'' (world (snd (createTahoeView rt w1 s)))) \<noteq> 0
        \<and> length (filter is_RegisterClassPair
          (new_events s (snd (createTahoeView rt w2 (snd (createTahoeView rt w1 s)))))) = 1
        \<and> no_synthesis_step (new_events (snd (createTahoeView rt w1 s))
              (snd (createTahoeView rt w2 (snd (createTahoeView rt w1 s))))))
   \<and> (registry_contract rt ''TahoeTimerTarget''
      \<and> fst (rt_getClass rt ''TahoeTimerTarget'' (world s)) = 0
      \<and> fst (createAnimationTimer rt w1 i1 s) \<noteq> 0 \<longrightarrow>
        fst (rt_getClass rt ''TahoeTimerTarget'' (world (snd (createAnimationTimer rt w1 i1 s)))) \<noteq> 0
        \<and> length (filter is_RegisterClassPair
          (new_events s (snd (createAnimationTimer rt w2 i2 (snd (createAnimationTimer rt w1 i1 s)))))) = 1
        \<and> no_class_step (new_events (snd (createAnimationTimer rt w1 i1 s))
              (snd (createAnimationTimer rt w2 i2 (snd (createAnimationTimer rt w1 i1 s))))))"
proof (intro conjI impI)
  assume a: "registry_contract rt ''TahoeWindowDelegate''
      \<and> fst (rt_getClass rt ''TahoeWindowDelegate'' (world s)) = 0
      \<and> fst (createWindowDelegate rt w1 s) \<noteq> 0"
  let ?s1 = "snd (createWindowDelegate rt w1 s)"
  let ?s2 = "snd (createWindowDelegate rt w2 ?s1)"
  from a have c: "registry_contract rt ''TahoeWindowDelegate''" by simp
  from ensw_world [OF delegate_world [OF c, of s w1]] a
  show found: "fst (rt_getClass rt ''TahoeWindowDelegate'' (world ?s1)) \<noteq> 0"
    by simp
  have r: "length (filter is_RegisterClassPair (new_events s ?s2)) = 1 \<and> no_synthesis_step (new_events ?s1 ?s2)"
    using ens_trace [OF delegate_registers [of rt s w1]] ens_trace [OF delegate_registers [of rt ?s1 w2]] a found
    by (intro twice [where A = "fst (rt_getClass rt ''TahoeWindowDelegate'' (world s)) = 0
           \<and> fst (createWindowDelegate rt w1 s) \<noteq> 0"
         and B = "fst (rt_getClass rt ''TahoeWindowDelegate'' (world ?s1)) \<noteq> 0"])
       (auto simp add: no_synthesis_step_def)
  from r show "length (filter is_RegisterClassPair (new_events s ?s2)) = 1" by simp
  from r show "no_synthesis_step (new_events ?s1 ?s2)" by simp
next
  assume a: "registry_contract rt ''TahoeView''
      \<and> fst (rt_getClass rt ''TahoeView'' (world s)) = 0
      \<and> fst (createTahoeView rt w1 s) \<noteq> 0"
  let ?s1 = "snd (createTahoeView rt w1 s)"
  let ?s2 = "snd (createTahoeView rt w2 ?s1)"
  from a have c: "registry_contract rt ''TahoeView''" by simp
  from ensw_world [OF view_world [OF c, of s w1]] a
  show found: "fst (rt_getClass rt ''TahoeView'' (world ?s1)) \<noteq> 0"
    by simp
  have r: "length (filter is_RegisterClassPair (new_events s ?s2)) = 1 \<and> no_synthesis_step (new_events ?s1 ?s2)"
    using ens_trace [OF view_registers [of rt s w1]] ens_trace [OF view_registers [of rt ?s1 w2]] a found
    by (intro twice [where A = "fst (rt_getClass rt ''TahoeView'' (world s)) = 0
           \<and> fst (createTahoeView rt w1 s) \<noteq> 0"
         and B = "fst (rt_getClass rt ''TahoeView'' (world ?s1)) \<noteq> 0"])
       (auto simp add: no_synthesis_step_def)
  from r show "length (filter is_RegisterClassPair (new_events s ?s2)) = 1" by simp
  from r show "no_synthesis_step (new_events ?s1 ?s2)" by simp
next
  assume a: "registry_contract rt ''TahoeTimerTarget''
      \<and> fst (rt_getClass rt ''TahoeTimerTarget'' (world s)) = 0
      \<and> fst (createAnimationTimer rt w1 i1 s) \<noteq> 0"
  let ?s1 = "snd (createAnimationTimer rt w1 i1 s)"
  let ?s2 = "snd (createAnimationTimer rt w2 i2 ?s1)"
  from a have c: "registry_contract rt ''TahoeTimerTarget''" by simp
  from ensw_world [OF timer_world [OF c, of s w1 i1]] a
  show found: "fst (rt_getClass rt ''TahoeTimerTarget'' (world ?s1)) \<noteq> 0"
    by simp
  have r: "length (filter is_RegisterClassPair (new_events s ?s2)) = 1 \<and> no_class_step (new_events ?s1 ?s2)"
    using ens_trace [OF timer_registers [of rt s w1 i1]] ens_trace [OF timer_registers [of rt ?s1 w2 i2]] a found
    by (intro twice [where A = "fst (rt_getClass rt ''TahoeTimerTarget'' (world s)) = 0
           \<and> fst (createAnimationTimer rt w1 i1 s) \<noteq> 0"
         and B = "fst (rt_getClass rt ''TahoeTimerTarget'' (world ?s1)) \<noteq> 0"])
       (auto simp add: no_class_step_def)
  from r show "length (filter is_RegisterClassPair (new_events s ?s2)) = 1" by simp
  from r show "no_class_step (new_events ?s1 ?s2)" by simp
qed

theorem synthesis_twice_witness:
  "registry_contract reference_runtime ''TahoeWindowDelegate''
   \<and> fst (rt_getClass reference_runtime ''TahoeWindowDelegate'' initial_world) = 0
   \<and> fst (createWindowDelegate reference_runtime 7 (start initial_world)) = 0x100070
   \<and> fst (rt_getClass reference_runtime ''TahoeWindowDelegate''
        (world (snd (createWindowDelegate reference_runtime 7 (start initial_world))))) = 0x100000
   \<and> length (filter is_RegisterClassPair
          (trace (snd (createWindowDelegate reference_runtime 8
             (snd (createWindowDelegate reference_runtime 7 (start initial_world))))))) = 1
   \<and> registry_contract reference_runtime ''TahoeView''
   \<and> fst (rt_getClass reference_runtime ''TahoeView'' initial_world) = 0
   \<and> fst (createTahoeView reference_runtime 7 (start initial_world)) = 0x1000B0
   \<and> fst (rt_getClass reference_runtime ''TahoeView''
        (world (snd (createTahoeView reference_runtime 7 (start initial_world))))) = 0x100000
   \<and> length (filter is_RegisterClassPair
          (trace (snd (createTahoeView reference_runtime 8
             (snd (createTahoeView reference_runtime 7 (start initial_world))))))) = 1
   \<and> registry_contract reference_runtime ''TahoeTimerTarget''
   \<and> fst (rt_getClass reference_runtime ''TahoeTimerTarget'' initial_world) = 0
   \<and> fst (createAnimationTimer reference_runtime 7 (Finite (1/2)) (start initial_world)) = 0x100090
   \<and> fst (rt_getClass reference_runtime ''TahoeTimerTarget''
        (world (snd (createAnimationTimer reference_runtime 7 (Finite (1/2)) (start initial_world))))) = 0x100000
   \<and> length (filter is_RegisterClassPair
          (trace (snd (createAnimationTimer reference_runtime 8 (Finite (1/4))
             (snd (createAnimationTimer reference_runtime 7 (Finite (1/2)) (start initial_world))))))) = 1"
  using synthesis_twice [of reference_runtime "start initial_world" 7 8 "Finite (1/2)" "Finite (1/4)"]
    reference_runtime_contract [of "''TahoeWindowDelegate''"]
    reference_runtime_contract [of "''TahoeView''"]
    reference_runtime_contract [of "''TahoeTimerTarget''"]
  by (simp add: ctor_defs eval_defs new_events_def no_synthesis_step_def no_class_step_def)

end
